theory Spec2Isabelle
  imports Main "HOL-Library.Sublist"
begin

section \<open>Characters and strings\<close>

text \<open>
  A JavaScript string is modelled as a \<^typ>\<open>string\<close>, one \<^typ>\<open>char\<close> per code unit.
  The character classes are those of the ASCII range: \<open>\s\<close> (and \<open>trim\<close>) is
  tab, line feed, vertical tab, form feed, carriage return and space; \<open>\d\<close> is
  \<open>0-9\<close>; \<open>\w\<close> is \<open>[A-Za-z0-9_]\<close>; \<open>toUpperCase\<close> maps \<open>a-z\<close> to \<open>A-Z\<close> and leaves
  every other character alone.
\<close>

definition WhiteSpace :: "char list" where
  "WhiteSpace = [CHR 0x09, CHR 0x0A, CHR 0x0B, CHR 0x0C, CHR 0x0D, CHR 0x20]"

definition is_space :: "char \<Rightarrow> bool" where
  "is_space c \<longleftrightarrow> c \<in> set WhiteSpace"

definition is_digit :: "char \<Rightarrow> bool" where
  "is_digit c \<longleftrightarrow> c \<in> set ''0123456789''"

definition is_lower :: "char \<Rightarrow> bool" where
  "is_lower c \<longleftrightarrow> c \<in> set ''abcdefghijklmnopqrstuvwxyz''"

definition is_upper :: "char \<Rightarrow> bool" where
  "is_upper c \<longleftrightarrow> c \<in> set ''ABCDEFGHIJKLMNOPQRSTUVWXYZ''"

definition is_word_char :: "char \<Rightarrow> bool" where
  "is_word_char c \<longleftrightarrow> is_lower c \<or> is_upper c \<or> is_digit c \<or> c = CHR ''_''"

definition toUpperChar :: "char \<Rightarrow> char" where
  "toUpperChar c =
     (case map_of (zip ''abcdefghijklmnopqrstuvwxyz'' ''ABCDEFGHIJKLMNOPQRSTUVWXYZ'') c of
        Some u \<Rightarrow> u
      | None \<Rightarrow> c)"

definition toUpperCase :: "string \<Rightarrow> string" where
  "toUpperCase s = map toUpperChar s"

text \<open>\<open>String.prototype.trim\<close>: drop the white space at both ends.\<close>

definition trim :: "string \<Rightarrow> string" where
  "trim s = rev (dropWhile is_space (rev (dropWhile is_space s)))"

text \<open>\<open>s.startsWith(p)\<close> and \<open>s.endsWith(p)\<close>.\<close>

definition startsWith :: "string \<Rightarrow> string \<Rightarrow> bool" where
  "startsWith s p \<longleftrightarrow> take (length p) s = p"

definition endsWith :: "string \<Rightarrow> string \<Rightarrow> bool" where
  "endsWith s p \<longleftrightarrow> length p \<le> length s \<and> drop (length s - length p) s = p"

text \<open>\<open>xs.join(sep)\<close>.\<close>

fun join :: "string \<Rightarrow> string list \<Rightarrow> string" where
  "join sep [] = []"
| "join sep [x] = x"
| "join sep (x # y # ys) = x @ sep @ join sep (y # ys)"

section \<open>Identifier validation and quoting\<close>

text \<open>
  The identifier module: \<open>VALID_IDENTIFIER = /^[a-zA-Z_][a-zA-Z0-9_]*$/\<close>,
  \<open>MAX_IDENTIFIER_LENGTH = 63\<close>, the reserved keywords, \<open>validateIdentifier\<close> and
  \<open>quoteIdentifier\<close>.
\<close>

record Outcome =
  valid :: bool
  error :: "string option"

record IdentifierValidation = Outcome +
  sanitized :: "string option"

datatype ident_type = Table | Column | Schema

fun type_name :: "ident_type \<Rightarrow> string" where
  "type_name Table = ''table''"
| "type_name Column = ''column''"
| "type_name Schema = ''schema''"

definition MAX_IDENTIFIER_LENGTH :: nat where
  "MAX_IDENTIFIER_LENGTH = 63"

definition RESERVED_KEYWORDS :: "string list" where
  "RESERVED_KEYWORDS =
     [''SELECT'', ''INSERT'', ''UPDATE'', ''DELETE'', ''DROP'', ''ALTER'', ''CREATE'', ''TABLE'',
      ''DATABASE'', ''INDEX'', ''VIEW'', ''TRIGGER'', ''FUNCTION'', ''FROM'', ''WHERE'', ''AND'',
      ''OR'', ''NOT'', ''NULL'', ''TRUE'', ''FALSE'', ''JOIN'', ''LEFT'', ''RIGHT'', ''INNER'',
      ''OUTER'', ''ON'', ''AS'', ''ORDER'', ''BY'', ''GROUP'', ''HAVING'', ''LIMIT'', ''OFFSET'',
      ''UNION'', ''INTERSECT'', ''EXCEPT'', ''ALL'', ''DISTINCT'', ''GRANT'', ''REVOKE'',
      ''EXECUTE'', ''TRUNCATE'']"

text \<open>\<open>VALID_IDENTIFIER.test(s)\<close>: a letter or underscore, then word characters to the end.\<close>

fun VALID_IDENTIFIER :: "string \<Rightarrow> bool" where
  "VALID_IDENTIFIER [] = False"
| "VALID_IDENTIFIER (c # cs) \<longleftrightarrow>
     (is_lower c \<or> is_upper c \<or> c = CHR ''_'') \<and> list_all is_word_char cs"

definition validateIdentifier :: "string \<Rightarrow> ident_type \<Rightarrow> IdentifierValidation" where
  "validateIdentifier identifier ty =
     (if identifier = [] then
        \<lparr>valid = False, error = Some (type_name ty @ '' name must be a non-empty string''),
         sanitized = None\<rparr>
      else let trimmed = trim identifier in
        if length trimmed = 0 then
          \<lparr>valid = False, error = Some (type_name ty @ '' name cannot be empty''),
           sanitized = None\<rparr>
        else if length trimmed > MAX_IDENTIFIER_LENGTH then
          \<lparr>valid = False, error = Some (type_name ty @ '' name too long (max 63 characters)''),
           sanitized = None\<rparr>
        else if \<not> VALID_IDENTIFIER trimmed then
          \<lparr>valid = False,
           error = Some (''Invalid '' @ type_name ty @ '' name '' @ [CHR 0x22] @ trimmed @ [CHR 0x22]
             @ ''. Only letters, numbers, and underscores allowed. Must start with a letter or underscore.''),
           sanitized = None\<rparr>
        else if toUpperCase trimmed \<in> set RESERVED_KEYWORDS then
          \<lparr>valid = True, error = None, sanitized = Some trimmed\<rparr>
        else
          \<lparr>valid = True, error = None, sanitized = Some trimmed\<rparr>)"

text \<open>\<open>identifier.replace(/"/g, '""')\<close>: every double quote is written twice.\<close>

fun escape_quotes :: "string \<Rightarrow> string" where
  "escape_quotes [] = []"
| "escape_quotes (c # cs) =
     (if c = CHR 0x22 then CHR 0x22 # CHR 0x22 # escape_quotes cs else c # escape_quotes cs)"

definition quoteIdentifier :: "string \<Rightarrow> string" where
  "quoteIdentifier identifier = [CHR 0x22] @ escape_quotes identifier @ [CHR 0x22]"

text \<open>
  The quoting rule in the words of the specification, for comparison: each embedded quote
  character doubled, the whole wrapped in the identifier-quote character.
\<close>

definition quote_as_specified :: "string \<Rightarrow> string" where
  "quote_as_specified name =
     CHR 0x22 # concat (map (\<lambda>c. if c = CHR 0x22 then [c, c] else [c]) name) @ [CHR 0x22]"

section \<open>Statement validation\<close>

text \<open>
  The validator module: \<open>BLOCKED_KEYWORDS\<close>, \<open>ALLOWED_PREFIXES\<close>, \<open>DANGEROUS_PATTERNS\<close>
  and \<open>validateQuery\<close>.
\<close>

record ValidationResult = Outcome +
  normalized :: "string option"

definition BLOCKED_KEYWORDS :: "string list" where
  "BLOCKED_KEYWORDS =
     [''INSERT'', ''UPDATE'', ''DELETE'', ''DROP'', ''ALTER'', ''TRUNCATE'', ''CREATE'', ''GRANT'',
      ''REVOKE'', ''EXECUTE'', ''CALL'', ''COPY'', ''VACUUM'', ''REINDEX'', ''CLUSTER'', ''COMMENT'',
      ''SECURITY'', ''OWNER'', ''SET ROLE'', ''RESET'']"

definition ALLOWED_PREFIXES :: "string list" where
  "ALLOWED_PREFIXES = [''SELECT'', ''EXPLAIN'', ''SHOW'', ''WITH'']"

text \<open>
  \<open>s.replace(/\s+/g, ' ')\<close>: every maximal run of white space becomes one space. The flag
  says that the character before was white space, so the run has its space already.
\<close>

fun replace_ws_runs :: "bool \<Rightarrow> string \<Rightarrow> string" where
  "replace_ws_runs in_run [] = []"
| "replace_ws_runs in_run (c # cs) =
     (if is_space c then
        (if in_run then replace_ws_runs True cs else CHR 0x20 # replace_ws_runs True cs)
      else c # replace_ws_runs False cs)"

text \<open>\<open>sql.trim().replace(/\s+/g, ' ')\<close>, the normalized statement.\<close>

definition normalize :: "string \<Rightarrow> string" where
  "normalize sql = replace_ws_runs False (trim sql)"

text \<open>
  A literal of a regular expression with the \<open>i\<close> flag, matched at the head of \<open>s\<close>:
  both sides are compared in upper case.
\<close>

definition ci_starts :: "string \<Rightarrow> string \<Rightarrow> bool" where
  "ci_starts s lit \<longleftrightarrow>
     length lit \<le> length s \<and> toUpperCase (take (length lit) s) = toUpperCase lit"

text \<open>
  The assertion \<open>\b\<close> at a position: the character before (\<open>prev_word\<close> says whether it
  is a word character; none at the start) and the character after (none at the end) differ
  in being word characters.
\<close>

definition word_boundary :: "bool \<Rightarrow> string \<Rightarrow> bool" where
  "word_boundary prev_word rest \<longleftrightarrow> prev_word \<noteq> (rest \<noteq> [] \<and> is_word_char (hd rest))"

text \<open>\<open>\bkeyword\b\<close> with the \<open>i\<close> flag, matched at the head of \<open>s\<close>.\<close>

definition keyword_here :: "string \<Rightarrow> bool \<Rightarrow> string \<Rightarrow> bool" where
  "keyword_here keyword prev_word s \<longleftrightarrow>
     word_boundary prev_word s \<and> ci_starts s keyword \<and>
     (let m = take (length keyword) s in
        word_boundary (if m = [] then prev_word else is_word_char (last m))
          (drop (length keyword) s))"

text \<open>\<open>new RegExp(`\\b${keyword}\\b`, 'i').test(s)\<close>: a match at some position of \<open>s\<close>.\<close>

fun keyword_search :: "string \<Rightarrow> bool \<Rightarrow> string \<Rightarrow> bool" where
  "keyword_search keyword prev_word [] = keyword_here keyword prev_word []"
| "keyword_search keyword prev_word (c # cs) \<longleftrightarrow>
     keyword_here keyword prev_word (c # cs) \<or> keyword_search keyword (is_word_char c) cs"

definition keyword_test :: "string \<Rightarrow> string \<Rightarrow> bool" where
  "keyword_test keyword s = keyword_search keyword False s"

text \<open>
  \<open>pattern.test(s)\<close> for a pattern without anchors or assertions: the pattern, given as a
  test on what is left of the string, matches at some position.
\<close>

fun test_anywhere :: "(string \<Rightarrow> bool) \<Rightarrow> string \<Rightarrow> bool" where
  "test_anywhere here [] = here []"
| "test_anywhere here (c # cs) \<longleftrightarrow> here (c # cs) \<or> test_anywhere here cs"

text \<open>
  \<open>/;\s*(INSERT|UPDATE|DELETE|DROP|ALTER|TRUNCATE|CREATE)/i\<close> at the head of \<open>s\<close>. Every
  alternative starts with a letter, so \<open>\s*\<close> has to take the whole run of white space.
\<close>

definition separator_write_here :: "string \<Rightarrow> bool" where
  "separator_write_here s \<longleftrightarrow>
     (case s of
        [] \<Rightarrow> False
      | c # cs \<Rightarrow> c = CHR '';'' \<and>
          list_ex (ci_starts (dropWhile is_space cs))
            [''INSERT'', ''UPDATE'', ''DELETE'', ''DROP'', ''ALTER'', ''TRUNCATE'', ''CREATE''])"

text \<open>
  \<open>/A\s+B/i\<close> at the head of \<open>s\<close>, for literals \<open>A\<close> and \<open>B\<close> where \<open>B\<close> starts with a
  letter: \<open>A\<close>, at least one white space, all the white space there is, then \<open>B\<close>.
\<close>

definition two_words_here :: "string \<Rightarrow> string \<Rightarrow> string \<Rightarrow> bool" where
  "two_words_here a b s \<longleftrightarrow>
     ci_starts s a \<and>
     (let r = drop (length a) s in
        r \<noteq> [] \<and> is_space (hd r) \<and> ci_starts (dropWhile is_space r) b)"

text \<open>
  \<open>/COPY\s+.*\s+TO/i\<close> at the head of \<open>s\<close>, as the automaton of the pattern: after
  \<open>COPY\<close> and one white space, \<open>copy_ws1\<close> is inside the first \<open>\s+\<close>, \<open>copy_any\<close>
  inside \<open>.*\<close> (any character but a line terminator), \<open>copy_ws2\<close> inside the second
  \<open>\s+\<close>, which \<open>TO\<close> has to follow.
\<close>

definition is_line_terminator :: "char \<Rightarrow> bool" where
  "is_line_terminator c \<longleftrightarrow> c = CHR 0x0A \<or> c = CHR 0x0D"

fun copy_ws2 :: "string \<Rightarrow> bool" where
  "copy_ws2 [] = False"
| "copy_ws2 (c # cs) \<longleftrightarrow> ci_starts (c # cs) ''TO'' \<or> (is_space c \<and> copy_ws2 cs)"

fun copy_any :: "string \<Rightarrow> bool" where
  "copy_any [] = False"
| "copy_any (c # cs) \<longleftrightarrow> (is_space c \<and> copy_ws2 cs) \<or> (\<not> is_line_terminator c \<and> copy_any cs)"

fun copy_ws1 :: "string \<Rightarrow> bool" where
  "copy_ws1 [] = False"
| "copy_ws1 (c # cs) \<longleftrightarrow> copy_any (c # cs) \<or> (is_space c \<and> copy_ws1 cs)"

definition copy_to_here :: "string \<Rightarrow> bool" where
  "copy_to_here s \<longleftrightarrow>
     ci_starts s ''COPY'' \<and>
     (case drop 4 s of [] \<Rightarrow> False | c # cs \<Rightarrow> is_space c \<and> copy_ws1 cs)"

definition DANGEROUS_PATTERNS :: "(string \<Rightarrow> bool) list" where
  "DANGEROUS_PATTERNS =
     [test_anywhere separator_write_here,
      test_anywhere (two_words_here ''INTO'' ''OUTFILE''),
      test_anywhere (two_words_here ''INTO'' ''DUMPFILE''),
      test_anywhere (\<lambda>s. ci_starts s ''LOAD_FILE''),
      test_anywhere (\<lambda>s. ci_starts s ''pg_read_file''),
      test_anywhere (\<lambda>s. ci_starts s ''pg_write_file''),
      test_anywhere (\<lambda>s. ci_starts s ''lo_import''),
      test_anywhere (\<lambda>s. ci_starts s ''lo_export''),
      test_anywhere copy_to_here,
      test_anywhere (\<lambda>s. ci_starts s ''pg_terminate_backend''),
      test_anywhere (\<lambda>s. ci_starts s ''pg_cancel_backend'')]"

definition reject :: "string \<Rightarrow> ValidationResult" where
  "reject msg = \<lparr>valid = False, error = Some msg, normalized = None\<rparr>"

definition validateQuery :: "string \<Rightarrow> string list \<Rightarrow> ValidationResult" where
  "validateQuery sql allowedStatements =
     (if sql = [] then reject ''Query must be a non-empty string''
      else let normalized = normalize sql in
        if length normalized = 0 then reject ''Query cannot be empty''
        else if length normalized > 100000 then reject ''Query too long (max 100KB)''
        else let upperNormalized = toUpperCase normalized in
          if \<not> list_ex (startsWith upperNormalized) allowedStatements then
            reject (''Query must start with one of: '' @ join '', '' allowedStatements)
          else
            (case find (\<lambda>keyword. keyword_test keyword upperNormalized) BLOCKED_KEYWORDS of
               Some keyword \<Rightarrow>
                 reject (''Blocked keyword detected: '' @ keyword
                   @ ''. Only read operations are allowed.'')
             | None \<Rightarrow>
                 if list_ex (\<lambda>pattern. pattern normalized) DANGEROUS_PATTERNS then
                   reject ''Potentially dangerous SQL pattern detected''
                 else let semiCount = length (filter (\<lambda>c. c = CHR '';'') normalized) in
                   if semiCount > 1 \<or> (semiCount = 1 \<and> \<not> endsWith normalized '';'') then
                     reject ''Multiple statements not allowed. Execute one query at a time.''
                   else \<lparr>valid = True, error = None, normalized = Some normalized\<rparr>))"




section \<open>Limit enforcement\<close>

text \<open>
  \<open>enforceLimit\<close> and what it uses. \<open>maxLimit\<close> is an integer; a JavaScript number that
  is not an integer is outside the model.
\<close>

text \<open>\<open>s.includes(sub)\<close>.\<close>

fun str_includes :: "string \<Rightarrow> string \<Rightarrow> bool" where
  "str_includes [] sub \<longleftrightarrow> sub = []"
| "str_includes (c # cs) sub \<longleftrightarrow> startsWith (c # cs) sub \<or> str_includes cs sub"

text \<open>\<open>parseInt(digits, 10)\<close> on a string of decimal digits.\<close>

definition digit_value :: "char \<Rightarrow> nat" where
  "digit_value c = (case map_of (zip ''0123456789'' [0, 1, 2, 3, 4, 5, 6, 7, 8, 9]) c of Some v \<Rightarrow> v | None \<Rightarrow> 0)"

definition parseInt :: "string \<Rightarrow> nat" where
  "parseInt digits = foldl (\<lambda>n d. 10 * n + digit_value d) 0 digits"

text \<open>The decimal text of an integer, as the template literal \<open>`${maxLimit}`\<close> writes it.\<close>

definition digit_char :: "nat \<Rightarrow> char" where
  "digit_char d = ''0123456789'' ! d"

fun show_nat :: "nat \<Rightarrow> string" where
  "show_nat n = (if n < 10 then [digit_char n] else show_nat (n div 10) @ [digit_char (n mod 10)])"

declare show_nat.simps [simp del]

definition show_int :: "int \<Rightarrow> string" where
  "show_int i = (if i < 0 then CHR ''-'' # show_nat (nat (- i)) else show_nat (nat i))"

text \<open>
  \<open>/LIMIT\s+(\d+)/\<close> at the head of \<open>s\<close> (\<open>ci\<close> is the \<open>i\<close> flag): the captured digits and
  what follows the match. Both \<open>\s+\<close> and \<open>\d+\<close> have to take all there is, since a digit
  must follow the white space and the match is the longest.
\<close>

definition limit_here :: "bool \<Rightarrow> string \<Rightarrow> (string \<times> string) option" where
  "limit_here ci s =
     (if (if ci then ci_starts s ''LIMIT'' else startsWith s ''LIMIT'') then
        let r = drop 5 s;
            ws = takeWhile is_space r;
            r' = dropWhile is_space r;
            ds = takeWhile is_digit r'
        in if ws \<noteq> [] \<and> ds \<noteq> [] then Some (ds, dropWhile is_digit r') else None
      else None)"

text \<open>
  The leftmost match of the pattern in \<open>s\<close>, as \<open>s.match(...)\<close> and \<open>s.replace(...)\<close> find
  it: the text before the match, the captured digits, the text after the match.
\<close>

fun limit_search :: "bool \<Rightarrow> string \<Rightarrow> (string \<times> string \<times> string) option" where
  "limit_search ci [] = None"
| "limit_search ci (c # cs) =
     (case limit_here ci (c # cs) of
        Some (ds, rest) \<Rightarrow> Some ([], ds, rest)
      | None \<Rightarrow>
          (case limit_search ci cs of
             Some (pre, ds, rest) \<Rightarrow> Some (c # pre, ds, rest)
           | None \<Rightarrow> None))"

text \<open>\<open>normalized.replace(/LIMIT\s+\d+/i, `LIMIT ${maxLimit}`)\<close>: the first match is replaced.\<close>

definition replace_limit :: "string \<Rightarrow> int \<Rightarrow> string" where
  "replace_limit s maxLimit =
     (case limit_search True s of
        Some (pre, ds, rest) \<Rightarrow> pre @ ''LIMIT '' @ show_int maxLimit @ rest
      | None \<Rightarrow> s)"

text \<open>\<open>s.replace(/;$/, '')\<close>: a semicolon at the very end is dropped.\<close>

definition strip_semicolon :: "string \<Rightarrow> string" where
  "strip_semicolon s = (if s \<noteq> [] \<and> last s = CHR '';'' then butlast s else s)"

definition enforceLimit :: "string \<Rightarrow> int \<Rightarrow> string" where
  "enforceLimit sql maxLimit =
     (let normalized = trim sql;
          upperNormalized = toUpperCase normalized
      in if str_includes upperNormalized '' LIMIT '' then
           (case limit_search False upperNormalized of
              Some (pre, ds, rest) \<Rightarrow>
                if int (parseInt ds) > maxLimit then replace_limit normalized maxLimit
                else normalized
            | None \<Rightarrow> normalized)
         else if startsWith upperNormalized ''EXPLAIN'' then normalized
         else if startsWith upperNormalized ''SHOW'' then normalized
         else if startsWith upperNormalized ''WITH'' then
           strip_semicolon normalized @ '' LIMIT '' @ show_int maxLimit
         else strip_semicolon normalized @ '' LIMIT '' @ show_int maxLimit)"



section \<open>Batch export\<close>

text \<open>
  \<open>dbExportBatch\<close>. What it does to the outside is explicit: the world holds the contents
  of the files, the list of the writes made (path and data, in order) and the list of the
  queries issued to the driver so far; the environment
  gives what the function reads from outside (whether the project is initialized, whether
  loading the configuration and connecting to the driver throw, and the driver's answer to
  a query, which may depend on the queries issued before it) and the functions of the
  platform it calls (\<open>path.join\<close>, the timestamp of \<open>new Date().toISOString()\<close>, and
  \<open>JSON.stringify\<close> on a row). Creating directories and writing files are taken to
  succeed; logging and the timing fields of the result (\<open>durationMs\<close>, \<open>rowsPerSecond\<close>)
  and its \<open>hint\<close> text are not modelled. \<open>batchSize\<close> and \<open>maxRows\<close> are integers.
\<close>

datatype export_format = Json | Jsonl | Csv

fun format_name :: "export_format \<Rightarrow> string" where
  "format_name Json = ''json''"
| "format_name Jsonl = ''jsonl''"
| "format_name Csv = ''csv''"

text \<open>
  A value of a row as the CSV branch distinguishes them: \<open>null\<close> or \<open>undefined\<close>, a
  string, an object (given by its \<open>JSON.stringify\<close> text), anything else (given by its
  \<open>String(val)\<close> text). A row lists its fields in the order of \<open>Object.keys\<close>.
\<close>

datatype cell = Null | Text string | Object string | Other string

type_synonym row = "(string \<times> cell) list"

record DbExportBatchInput =
  projectPath :: string
  sql :: string
  outputPath :: "string option"
  format :: "export_format option"
  batchSize :: "int option"
  maxRows :: "int option"

record world =
  files :: "string \<Rightarrow> string option"
  written :: "(string \<times> string) list"
  issued :: "string list"

record env =
  initialized :: bool
  connect_error :: "string option"
  executor :: "string list \<Rightarrow> string \<Rightarrow> string + row list"
  path_join :: "string \<Rightarrow> string \<Rightarrow> string"
  timestamp :: string
  stringify :: "row \<Rightarrow> string"

record ExportReport =
  report_filepath :: string
  report_format :: export_format
  report_totalRows :: nat
  report_batchCount :: nat
  report_batchSize :: int

text \<open>\<open>success(data)\<close> and \<open>error(message, details)\<close> of the result module.\<close>

datatype ToolResult = ToolSuccess ExportReport | ToolError string "string option"

text \<open>What a caller can read from a result: the output path, and the progress made.\<close>

fun told_filepath :: "ToolResult \<Rightarrow> string option" where
  "told_filepath (ToolSuccess r) = Some (report_filepath r)"
| "told_filepath (ToolError msg details) = None"

fun told_progress :: "ToolResult \<Rightarrow> (nat \<times> nat) option" where
  "told_progress (ToolSuccess r) = Some (report_batchCount r, report_totalRows r)"
| "told_progress (ToolError msg details) = None"

text \<open>\<open>writeFileSync(path, data)\<close> and \<open>appendFileSync(path, data)\<close>.\<close>

definition writeFileSync :: "string \<Rightarrow> string \<Rightarrow> world \<Rightarrow> world" where
  "writeFileSync path data w =
     w\<lparr>files := (files w)(path \<mapsto> data), written := written w @ [(path, data)]\<rparr>"

definition appendFileSync :: "string \<Rightarrow> string \<Rightarrow> world \<Rightarrow> world" where
  "appendFileSync path data w =
     w\<lparr>files := (files w)(path \<mapsto> (case files w path of None \<Rightarrow> data | Some old \<Rightarrow> old @ data)),
       written := written w @ [(path, data)]\<rparr>"

text \<open>
  A pattern that starts with \<open>\b\<close>, tested at every position of the string; the pattern
  is given as a test on what is left of the string, told whether the character before is
  a word character.
\<close>

fun test_from_boundary :: "(bool \<Rightarrow> string \<Rightarrow> bool) \<Rightarrow> bool \<Rightarrow> string \<Rightarrow> bool" where
  "test_from_boundary here prev_word [] = here prev_word []"
| "test_from_boundary here prev_word (c # cs) \<longleftrightarrow>
     here prev_word (c # cs) \<or> test_from_boundary here (is_word_char c) cs"

text \<open>\<open>/\bORDER\s+BY\b/i\<close> at the head of \<open>s\<close>, and its test on a statement.\<close>

definition order_by_here :: "bool \<Rightarrow> string \<Rightarrow> bool" where
  "order_by_here prev_word s \<longleftrightarrow>
     word_boundary prev_word s \<and> ci_starts s ''ORDER'' \<and>
     (let r = drop 5 s in
        r \<noteq> [] \<and> is_space (hd r) \<and>
        (let r' = dropWhile is_space r in
           ci_starts r' ''BY'' \<and> word_boundary True (drop 2 r')))"

definition order_by_test :: "string \<Rightarrow> bool" where
  "order_by_test s = test_from_boundary order_by_here False s"

text \<open>
  \<open>/\bLIMIT\s+\d+\s*(OFFSET\s+\d+)?/gi\<close> at the head of \<open>s\<close>: what follows the match.
  After the number the white space is taken whole, and the \<open>OFFSET\<close> clause if it is there.
\<close>

definition offset_here :: "string \<Rightarrow> string option" where
  "offset_here s =
     (if ci_starts s ''OFFSET'' then
        let r = drop 6 s;
            ws = takeWhile is_space r;
            r' = dropWhile is_space r;
            ds = takeWhile is_digit r'
        in if ws \<noteq> [] \<and> ds \<noteq> [] then Some (dropWhile is_digit r') else None
      else None)"

definition limit_offset_here :: "bool \<Rightarrow> string \<Rightarrow> string option" where
  "limit_offset_here prev_word s =
     (if word_boundary prev_word s then
        (case limit_here True s of
           None \<Rightarrow> None
         | Some (ds, rest) \<Rightarrow>
             let rest' = dropWhile is_space rest
             in (case offset_here rest' of None \<Rightarrow> Some rest' | Some rest'' \<Rightarrow> Some rest''))
      else None)"

text \<open>
  \<open>sql.replace(/\bLIMIT\s+\d+\s*(OFFSET\s+\d+)?/gi, '')\<close>: every match is dropped. \<open>skip\<close>
  counts the characters of the current match that are still to be dropped.
\<close>

fun strip_limits :: "nat \<Rightarrow> bool \<Rightarrow> string \<Rightarrow> string" where
  "strip_limits skip prev_word [] = []"
| "strip_limits (Suc k) prev_word (c # cs) = strip_limits k (is_word_char c) cs"
| "strip_limits 0 prev_word (c # cs) =
     (case limit_offset_here prev_word (c # cs) of
        Some rest \<Rightarrow> strip_limits (length cs - length rest) (is_word_char c) cs
      | None \<Rightarrow> c # strip_limits 0 (is_word_char c) cs)"

text \<open>The base query: limits stripped, trimmed, a final semicolon dropped, trimmed again.\<close>

definition base_query :: "string \<Rightarrow> string" where
  "base_query s = trim (strip_semicolon (trim (strip_limits 0 False s)))"

text \<open>The output path, given by the caller or made from the time of the call.\<close>

definition output_filepath :: "env \<Rightarrow> string \<Rightarrow> string option \<Rightarrow> export_format \<Rightarrow> string" where
  "output_filepath e project out fmt =
     (case out of
        Some p \<Rightarrow>
          if p \<noteq> [] then (if startsWith p ''/'' then p else path_join e project p)
          else path_join e (path_join e (path_join e project ''.db-mcp'') ''exports'')
                 (''batch_export_'' @ timestamp e @ ''.'' @ format_name fmt)
      | None \<Rightarrow>
          path_join e (path_join e (path_join e project ''.db-mcp'') ''exports'')
            (''batch_export_'' @ timestamp e @ ''.'' @ format_name fmt))"

record ExportJobState =
  totalRows :: nat
  batchCount :: nat
  offset :: nat
  isFirstBatch :: bool
  headers :: "string list"

text \<open>\<open>maxRows ? Math.min(batchSize, maxRows - totalRows) : batchSize\<close>; zero is not a cap.\<close>

definition has_cap :: "int option \<Rightarrow> bool" where
  "has_cap cap \<longleftrightarrow> (case cap of None \<Rightarrow> False | Some m \<Rightarrow> m \<noteq> 0)"

definition effective_limit :: "int \<Rightarrow> int option \<Rightarrow> nat \<Rightarrow> int" where
  "effective_limit pageSize cap rowsSoFar =
     (if has_cap cap then min pageSize (the cap - int rowsSoFar) else pageSize)"

text \<open>A value in a CSV line.\<close>

fun csv_cell :: "cell option \<Rightarrow> string" where
  "csv_cell None = []"
| "csv_cell (Some Null) = []"
| "csv_cell (Some (Text s)) = [CHR 0x22] @ escape_quotes s @ [CHR 0x22]"
| "csv_cell (Some (Object j)) = [CHR 0x22] @ escape_quotes j @ [CHR 0x22]"
| "csv_cell (Some (Other s)) = s"

text \<open>Writing one batch to the file, per format; the headers in use are returned.\<close>

definition write_batch ::
  "env \<Rightarrow> string \<Rightarrow> export_format \<Rightarrow> ExportJobState \<Rightarrow> row list \<Rightarrow> world \<Rightarrow> string list \<times> world"
where
  "write_batch e filepath fmt st rows w =
     (case fmt of
        Jsonl \<Rightarrow>
          (headers st,
           appendFileSync filepath
             ((if totalRows st > 0 then [CHR 0x0A] else []) @ join [CHR 0x0A] (map (stringify e) rows))
             w)
      | Csv \<Rightarrow>
          let first = isFirstBatch st \<and> length rows > 0;
              hs = (if first then map fst (hd rows) else headers st);
              w' = (if first then writeFileSync filepath (join '','' hs @ [CHR 0x0A]) w else w);
              csvLines =
                join [CHR 0x0A] (map (\<lambda>r. join '','' (map (\<lambda>h. csv_cell (map_of r h)) hs)) rows)
          in (hs, appendFileSync filepath (csvLines @ [CHR 0x0A]) w')
      | Json \<Rightarrow>
          (headers st,
           appendFileSync filepath
             ((if totalRows st > 0 then [CHR '','', CHR 0x0A] else [])
                @ join [CHR '','', CHR 0x0A] (map (\<lambda>r. ''  '' @ stringify e r) rows))
             w))"

text \<open>
  The batch loop. It need not end (a driver that always returns a full batch keeps it
  going), so it runs on fuel, one unit per iteration: \<open>None\<close> is fuel run out. Otherwise
  the result is the message of the exception the driver threw, if it did, the state and the world.
\<close>

fun batch_loop ::
  "nat \<Rightarrow> env \<Rightarrow> string \<Rightarrow> string \<Rightarrow> export_format \<Rightarrow> int \<Rightarrow> int option \<Rightarrow> ExportJobState \<Rightarrow> world
     \<Rightarrow> (string option \<times> ExportJobState \<times> world) option"
where
  "batch_loop 0 e baseQuery filepath fmt pageSize cap st w = None"
| "batch_loop (Suc fuel) e baseQuery filepath fmt pageSize cap st w =
     (let effectiveLimit = effective_limit pageSize cap (totalRows st)
      in if effectiveLimit \<le> 0 then Some (None, st, w)
         else
           let batchQuery = baseQuery @ '' LIMIT '' @ show_int effectiveLimit
                 @ '' OFFSET '' @ show_nat (offset st);
               w1 = w\<lparr>issued := issued w @ [batchQuery]\<rparr>
           in (case executor e (issued w) batchQuery of
                 Inl msg \<Rightarrow> Some (Some msg, st, w1)
               | Inr rows \<Rightarrow>
                   if length rows = 0 then Some (None, st, w1)
                   else
                     let (hs, w2) = write_batch e filepath fmt st rows w1;
                         st' = \<lparr>totalRows = totalRows st + length rows,
                                batchCount = batchCount st + 1,
                                offset = offset st + length rows,
                                isFirstBatch = False,
                                headers = hs\<rparr>
                     in if int (length rows) < effectiveLimit then Some (None, st', w2)
                        else if has_cap cap \<and> int (totalRows st') \<ge> the cap then Some (None, st', w2)
                        else batch_loop fuel e baseQuery filepath fmt pageSize cap st' w2))"

definition initial_state :: ExportJobState where
  "initial_state = \<lparr>totalRows = 0, batchCount = 0, offset = 0, isFirstBatch = True, headers = []\<rparr>"

definition dbExportBatch ::
  "nat \<Rightarrow> env \<Rightarrow> DbExportBatchInput \<Rightarrow> world \<Rightarrow> (ToolResult \<times> world) option"
where
  "dbExportBatch fuel e input w =
     (let fmt = (case format input of None \<Rightarrow> Jsonl | Some f \<Rightarrow> f);
          pageSize = (case batchSize input of None \<Rightarrow> 10000 | Some b \<Rightarrow> b)
      in if \<not> initialized e then
           Some (ToolError ''Project not initialized. Run db_init first.'' None, w)
         else
           let validation = validateQuery (sql input) ALLOWED_PREFIXES
           in if \<not> valid validation then
                Some (ToolError
                  (''Invalid query: '' @ (case error validation of None \<Rightarrow> ''undefined'' | Some m \<Rightarrow> m))
                  None, w)
              else if \<not> order_by_test (sql input) then
                Some (ToolError ''Query must include ORDER BY clause for consistent pagination'' None, w)
              else
                (case connect_error e of
                   Some msg \<Rightarrow> Some (ToolError ''Failed to export data'' (Some msg), w)
                 | None \<Rightarrow>
                     let filepath = output_filepath e (projectPath input) (outputPath input) fmt;
                         baseQuery = base_query (sql input);
                         w1 = (if fmt = Json then writeFileSync filepath [CHR ''['', CHR 0x0A] w else w)
                     in (case batch_loop fuel e baseQuery filepath fmt pageSize (maxRows input)
                               initial_state w1 of
                           None \<Rightarrow> None
                         | Some (Some msg, st, w2) \<Rightarrow>
                             Some (ToolError ''Failed to export data'' (Some msg), w2)
                         | Some (None, st, w2) \<Rightarrow>
                             let w3 = (if fmt = Json then appendFileSync filepath [CHR 0x0A, CHR '']''] w2
                                       else w2)
                             in Some (ToolSuccess
                                  \<lparr>report_filepath = filepath, report_format = fmt,
                                   report_totalRows = totalRows st,
                                   report_batchCount = batchCount st,
                                   report_batchSize = pageSize\<rparr>, w3))))"

text \<open>Names for the parts of one iteration of the loop, used to state its steps.\<close>

definition batch_query :: "string \<Rightarrow> int \<Rightarrow> int option \<Rightarrow> ExportJobState \<Rightarrow> string" where
  "batch_query baseQuery pageSize cap st =
     baseQuery @ '' LIMIT '' @ show_int (effective_limit pageSize cap (totalRows st))
       @ '' OFFSET '' @ show_nat (offset st)"

definition query_issued :: "string \<Rightarrow> world \<Rightarrow> world" where
  "query_issued q w = w\<lparr>issued := issued w @ [q]\<rparr>"

definition after_batch :: "ExportJobState \<Rightarrow> nat \<Rightarrow> string list \<Rightarrow> ExportJobState" where
  "after_batch st n hs =
     \<lparr>totalRows = totalRows st + n, batchCount = batchCount st + 1, offset = offset st + n,
      isFirstBatch = False, headers = hs\<rparr>"

text \<open>
  A small setting for running the export on concrete data: an initialized project whose
  driver is the given function, a request for batches of two rows into \<open>/tmp/out\<close>, an
  empty world, and a batch of two rows.
\<close>

definition example_env :: "(string list \<Rightarrow> string \<Rightarrow> string + row list) \<Rightarrow> env" where
  "example_env ex =
     \<lparr>initialized = True, connect_error = None, executor = ex,
      path_join = (\<lambda>a b. a @ ''/'' @ b), timestamp = ''2026-01-01T00-00-00-000Z'',
      stringify = (\<lambda>r. ''{}'')\<rparr>"

definition example_input :: "string \<Rightarrow> export_format option \<Rightarrow> DbExportBatchInput" where
  "example_input q fmt =
     \<lparr>projectPath = ''/project'', sql = q, outputPath = Some ''/tmp/out'', format = fmt,
      batchSize = Some 2, maxRows = None\<rparr>"

definition empty_world :: world where
  "empty_world = \<lparr>files = Map.empty, written = [], issued = []\<rparr>"

definition two_rows :: "row list" where
  "two_rows = [[(''id'', Other ''1'')], [(''id'', Other ''2'')]]"

text \<open>Two drivers: the first \<open>n\<close> queries return the given rows, the later ones return no
  rows, or throw.\<close>

definition paged_executor :: "nat \<Rightarrow> row list \<Rightarrow> string list \<Rightarrow> string \<Rightarrow> string + row list" where
  "paged_executor n rows h q = (if length h < n then Inr rows else Inr [])"

definition failing_executor ::
  "nat \<Rightarrow> row list \<Rightarrow> string \<Rightarrow> string list \<Rightarrow> string \<Rightarrow> string + row list" where
  "failing_executor n rows msg h q = (if length h < n then Inr rows else Inl msg)"

text \<open>What a run left behind: its result, a file, the queries issued, the writes made.\<close>

definition outcome :: "(ToolResult \<times> world) option \<Rightarrow> ToolResult option" where
  "outcome res = map_option fst res"

definition file_after :: "(ToolResult \<times> world) option \<Rightarrow> string \<Rightarrow> string option" where
  "file_after res path = (case res of None \<Rightarrow> None | Some (r, w) \<Rightarrow> files w path)"

definition queries_after :: "(ToolResult \<times> world) option \<Rightarrow> string list" where
  "queries_after res = (case res of None \<Rightarrow> [] | Some (r, w) \<Rightarrow> issued w)"

definition writes_after :: "(ToolResult \<times> world) option \<Rightarrow> (string \<times> string) list" where
  "writes_after res = (case res of None \<Rightarrow> [] | Some (r, w) \<Rightarrow> written w)"

section \<open>Basic facts about characters\<close>

lemma is_space_simps:
  "is_space c \<longleftrightarrow> c = CHR 0x09 \<or> c = CHR 0x0A \<or> c = CHR 0x0B \<or> c = CHR 0x0C \<or> c = CHR 0x0D
     \<or> c = CHR 0x20"
  by (auto simp: is_space_def WhiteSpace_def)

lemma toUpperChar_cases:
  "(is_lower c \<and> is_upper (toUpperChar c)) \<or> (\<not> is_lower c \<and> toUpperChar c = c)"
  by (simp add: toUpperChar_def is_lower_def is_upper_def)

lemma is_lower_props:
  "is_lower c \<Longrightarrow> \<not> is_space c \<and> \<not> is_digit c \<and> \<not> is_upper c \<and> is_word_char c"
  by (auto simp: is_lower_def is_upper_def is_digit_def is_space_simps is_word_char_def)







lemma toUpperChar_not_word: "\<not> is_word_char c \<Longrightarrow> toUpperChar c = c"
  using toUpperChar_cases [of c] is_lower_props by blast


lemma digit_word_char: "is_digit c \<Longrightarrow> is_word_char c"
  by (simp add: is_word_char_def)




section \<open>Facts about trimming\<close>

lemma trim_Nil: "trim [] = []"
  by (simp add: trim_def)





section \<open>Tables for evaluating the character functions on ASCII text\<close>

lemma toUpperChar_ascii:
  "toUpperChar (CHR 0x09) = CHR 0x09" "toUpperChar (CHR 0x0A) = CHR 0x0A" "toUpperChar (CHR 0x0D) = CHR 0x0D"
  "toUpperChar (CHR 0x20) = CHR 0x20" "toUpperChar (CHR 0x21) = CHR 0x21" "toUpperChar (CHR 0x22) = CHR 0x22"
  "toUpperChar (CHR 0x23) = CHR 0x23" "toUpperChar (CHR 0x24) = CHR 0x24" "toUpperChar (CHR 0x25) = CHR 0x25"
  "toUpperChar (CHR 0x26) = CHR 0x26" "toUpperChar (CHR 0x27) = CHR 0x27" "toUpperChar (CHR 0x28) = CHR 0x28"
  "toUpperChar (CHR 0x29) = CHR 0x29" "toUpperChar (CHR 0x2A) = CHR 0x2A" "toUpperChar (CHR 0x2B) = CHR 0x2B"
  "toUpperChar (CHR 0x2C) = CHR 0x2C" "toUpperChar (CHR 0x2D) = CHR 0x2D" "toUpperChar (CHR 0x2E) = CHR 0x2E"
  "toUpperChar (CHR 0x2F) = CHR 0x2F" "toUpperChar (CHR 0x30) = CHR 0x30" "toUpperChar (CHR 0x31) = CHR 0x31"
  "toUpperChar (CHR 0x32) = CHR 0x32" "toUpperChar (CHR 0x33) = CHR 0x33" "toUpperChar (CHR 0x34) = CHR 0x34"
  "toUpperChar (CHR 0x35) = CHR 0x35" "toUpperChar (CHR 0x36) = CHR 0x36" "toUpperChar (CHR 0x37) = CHR 0x37"
  "toUpperChar (CHR 0x38) = CHR 0x38" "toUpperChar (CHR 0x39) = CHR 0x39" "toUpperChar (CHR 0x3A) = CHR 0x3A"
  "toUpperChar (CHR 0x3B) = CHR 0x3B" "toUpperChar (CHR 0x3C) = CHR 0x3C" "toUpperChar (CHR 0x3D) = CHR 0x3D"
  "toUpperChar (CHR 0x3E) = CHR 0x3E" "toUpperChar (CHR 0x3F) = CHR 0x3F" "toUpperChar (CHR 0x40) = CHR 0x40"
  "toUpperChar (CHR 0x41) = CHR 0x41" "toUpperChar (CHR 0x42) = CHR 0x42" "toUpperChar (CHR 0x43) = CHR 0x43"
  "toUpperChar (CHR 0x44) = CHR 0x44" "toUpperChar (CHR 0x45) = CHR 0x45" "toUpperChar (CHR 0x46) = CHR 0x46"
  "toUpperChar (CHR 0x47) = CHR 0x47" "toUpperChar (CHR 0x48) = CHR 0x48" "toUpperChar (CHR 0x49) = CHR 0x49"
  "toUpperChar (CHR 0x4A) = CHR 0x4A" "toUpperChar (CHR 0x4B) = CHR 0x4B" "toUpperChar (CHR 0x4C) = CHR 0x4C"
  "toUpperChar (CHR 0x4D) = CHR 0x4D" "toUpperChar (CHR 0x4E) = CHR 0x4E" "toUpperChar (CHR 0x4F) = CHR 0x4F"
  "toUpperChar (CHR 0x50) = CHR 0x50" "toUpperChar (CHR 0x51) = CHR 0x51" "toUpperChar (CHR 0x52) = CHR 0x52"
  "toUpperChar (CHR 0x53) = CHR 0x53" "toUpperChar (CHR 0x54) = CHR 0x54" "toUpperChar (CHR 0x55) = CHR 0x55"
  "toUpperChar (CHR 0x56) = CHR 0x56" "toUpperChar (CHR 0x57) = CHR 0x57" "toUpperChar (CHR 0x58) = CHR 0x58"
  "toUpperChar (CHR 0x59) = CHR 0x59" "toUpperChar (CHR 0x5A) = CHR 0x5A" "toUpperChar (CHR 0x5B) = CHR 0x5B"
  "toUpperChar (CHR 0x5C) = CHR 0x5C" "toUpperChar (CHR 0x5D) = CHR 0x5D" "toUpperChar (CHR 0x5E) = CHR 0x5E"
  "toUpperChar (CHR 0x5F) = CHR 0x5F" "toUpperChar (CHR 0x60) = CHR 0x60" "toUpperChar (CHR 0x61) = CHR 0x41"
  "toUpperChar (CHR 0x62) = CHR 0x42" "toUpperChar (CHR 0x63) = CHR 0x43" "toUpperChar (CHR 0x64) = CHR 0x44"
  "toUpperChar (CHR 0x65) = CHR 0x45" "toUpperChar (CHR 0x66) = CHR 0x46" "toUpperChar (CHR 0x67) = CHR 0x47"
  "toUpperChar (CHR 0x68) = CHR 0x48" "toUpperChar (CHR 0x69) = CHR 0x49" "toUpperChar (CHR 0x6A) = CHR 0x4A"
  "toUpperChar (CHR 0x6B) = CHR 0x4B" "toUpperChar (CHR 0x6C) = CHR 0x4C" "toUpperChar (CHR 0x6D) = CHR 0x4D"
  "toUpperChar (CHR 0x6E) = CHR 0x4E" "toUpperChar (CHR 0x6F) = CHR 0x4F" "toUpperChar (CHR 0x70) = CHR 0x50"
  "toUpperChar (CHR 0x71) = CHR 0x51" "toUpperChar (CHR 0x72) = CHR 0x52" "toUpperChar (CHR 0x73) = CHR 0x53"
  "toUpperChar (CHR 0x74) = CHR 0x54" "toUpperChar (CHR 0x75) = CHR 0x55" "toUpperChar (CHR 0x76) = CHR 0x56"
  "toUpperChar (CHR 0x77) = CHR 0x57" "toUpperChar (CHR 0x78) = CHR 0x58" "toUpperChar (CHR 0x79) = CHR 0x59"
  "toUpperChar (CHR 0x7A) = CHR 0x5A" "toUpperChar (CHR 0x7B) = CHR 0x7B" "toUpperChar (CHR 0x7C) = CHR 0x7C"
  "toUpperChar (CHR 0x7D) = CHR 0x7D" "toUpperChar (CHR 0x7E) = CHR 0x7E"
  by (simp_all add: toUpperChar_def)

lemma is_word_char_ascii:
  "is_word_char (CHR 0x09) = False" "is_word_char (CHR 0x0A) = False" "is_word_char (CHR 0x0D) = False"
  "is_word_char (CHR 0x20) = False" "is_word_char (CHR 0x21) = False" "is_word_char (CHR 0x22) = False"
  "is_word_char (CHR 0x23) = False" "is_word_char (CHR 0x24) = False" "is_word_char (CHR 0x25) = False"
  "is_word_char (CHR 0x26) = False" "is_word_char (CHR 0x27) = False" "is_word_char (CHR 0x28) = False"
  "is_word_char (CHR 0x29) = False" "is_word_char (CHR 0x2A) = False" "is_word_char (CHR 0x2B) = False"
  "is_word_char (CHR 0x2C) = False" "is_word_char (CHR 0x2D) = False" "is_word_char (CHR 0x2E) = False"
  "is_word_char (CHR 0x2F) = False" "is_word_char (CHR 0x30) = True" "is_word_char (CHR 0x31) = True"
  "is_word_char (CHR 0x32) = True" "is_word_char (CHR 0x33) = True" "is_word_char (CHR 0x34) = True"
  "is_word_char (CHR 0x35) = True" "is_word_char (CHR 0x36) = True" "is_word_char (CHR 0x37) = True"
  "is_word_char (CHR 0x38) = True" "is_word_char (CHR 0x39) = True" "is_word_char (CHR 0x3A) = False"
  "is_word_char (CHR 0x3B) = False" "is_word_char (CHR 0x3C) = False" "is_word_char (CHR 0x3D) = False"
  "is_word_char (CHR 0x3E) = False" "is_word_char (CHR 0x3F) = False" "is_word_char (CHR 0x40) = False"
  "is_word_char (CHR 0x41) = True" "is_word_char (CHR 0x42) = True" "is_word_char (CHR 0x43) = True"
  "is_word_char (CHR 0x44) = True" "is_word_char (CHR 0x45) = True" "is_word_char (CHR 0x46) = True"
  "is_word_char (CHR 0x47) = True" "is_word_char (CHR 0x48) = True" "is_word_char (CHR 0x49) = True"
  "is_word_char (CHR 0x4A) = True" "is_word_char (CHR 0x4B) = True" "is_word_char (CHR 0x4C) = True"
  "is_word_char (CHR 0x4D) = True" "is_word_char (CHR 0x4E) = True" "is_word_char (CHR 0x4F) = True"
  "is_word_char (CHR 0x50) = True" "is_word_char (CHR 0x51) = True" "is_word_char (CHR 0x52) = True"
  "is_word_char (CHR 0x53) = True" "is_word_char (CHR 0x54) = True" "is_word_char (CHR 0x55) = True"
  "is_word_char (CHR 0x56) = True" "is_word_char (CHR 0x57) = True" "is_word_char (CHR 0x58) = True"
  "is_word_char (CHR 0x59) = True" "is_word_char (CHR 0x5A) = True" "is_word_char (CHR 0x5B) = False"
  "is_word_char (CHR 0x5C) = False" "is_word_char (CHR 0x5D) = False" "is_word_char (CHR 0x5E) = False"
  "is_word_char (CHR 0x5F) = True" "is_word_char (CHR 0x60) = False" "is_word_char (CHR 0x61) = True"
  "is_word_char (CHR 0x62) = True" "is_word_char (CHR 0x63) = True" "is_word_char (CHR 0x64) = True"
  "is_word_char (CHR 0x65) = True" "is_word_char (CHR 0x66) = True" "is_word_char (CHR 0x67) = True"
  "is_word_char (CHR 0x68) = True" "is_word_char (CHR 0x69) = True" "is_word_char (CHR 0x6A) = True"
  "is_word_char (CHR 0x6B) = True" "is_word_char (CHR 0x6C) = True" "is_word_char (CHR 0x6D) = True"
  "is_word_char (CHR 0x6E) = True" "is_word_char (CHR 0x6F) = True" "is_word_char (CHR 0x70) = True"
  "is_word_char (CHR 0x71) = True" "is_word_char (CHR 0x72) = True" "is_word_char (CHR 0x73) = True"
  "is_word_char (CHR 0x74) = True" "is_word_char (CHR 0x75) = True" "is_word_char (CHR 0x76) = True"
  "is_word_char (CHR 0x77) = True" "is_word_char (CHR 0x78) = True" "is_word_char (CHR 0x79) = True"
  "is_word_char (CHR 0x7A) = True" "is_word_char (CHR 0x7B) = False" "is_word_char (CHR 0x7C) = False"
  "is_word_char (CHR 0x7D) = False" "is_word_char (CHR 0x7E) = False"
  by (simp_all add: is_word_char_def is_lower_def is_upper_def is_digit_def)

lemma ci_starts_eval:
  "ci_starts s [] = True"
  "ci_starts [] (k # ks) = False"
  "ci_starts (c # cs) (k # ks) = (if toUpperChar c = toUpperChar k then ci_starts cs ks else False)"
  by (auto simp: ci_starts_def toUpperCase_def)

section \<open>Facts about quoting\<close>

lemma escape_quotes_spec:
  "escape_quotes s = concat (map (\<lambda>c. if c = CHR 0x22 then [c, c] else [c]) s)"
  by (induction s) auto

lemma escape_quotes_no_quote: "CHR 0x22 \<notin> set s \<Longrightarrow> escape_quotes s = s"
  by (induction s) auto

lemma length_escape_quotes: "length s \<le> length (escape_quotes s)"
  by (induction s) auto

lemma quote_not_word_char: "\<not> is_word_char (CHR 0x22)"
  by (simp add: is_word_char_def is_lower_def is_upper_def is_digit_def)

lemma VALID_IDENTIFIER_word_chars: "VALID_IDENTIFIER s \<Longrightarrow> list_all is_word_char s"
  by (cases s) (auto simp: is_word_char_def)

lemma VALID_IDENTIFIER_no_quote: "VALID_IDENTIFIER s \<Longrightarrow> CHR 0x22 \<notin> set s"
  using VALID_IDENTIFIER_word_chars [of s] quote_not_word_char
  by (auto simp: list_all_iff)

lemma validateIdentifier_sanitized:
  "valid (validateIdentifier s ty) \<Longrightarrow>
     sanitized (validateIdentifier s ty) = Some (trim s) \<and> VALID_IDENTIFIER (trim s)"
  by (auto simp: validateIdentifier_def Let_def split: if_splits)

text \<open>
  C8, as stated: quoting is idempotent,
  \<open>quoteIdentifier(quoteIdentifier(name)) == quoteIdentifier(name)\<close>. It fails at the
  name \<open>users\<close>: the second application quotes the quotes of the first.
\<close>

theorem quoteIdentifier_not_idempotent_users:
  "quoteIdentifier (quoteIdentifier ''users'') \<noteq> quoteIdentifier ''users''"
  by (simp add: quoteIdentifier_def)

text \<open>
  C8, amended: \<open>quoteIdentifier\<close> yields the name with every embedded double quote doubled,
  wrapped in double quotes; on a name that \<open>validateIdentifier\<close> accepted this is the
  sanitized name between two double quotes; and a second application never gives the first
  result back, for any name (quoting is not idempotent: it is to be applied once).
\<close>

theorem quoteIdentifier_wraps_and_doubles:
  "quoteIdentifier name = quote_as_specified name
   \<and> quoteIdentifier (quoteIdentifier name) \<noteq> quoteIdentifier name
   \<and> (valid (validateIdentifier name ty) \<longrightarrow>
        (\<exists>s. sanitized (validateIdentifier name ty) = Some s
           \<and> quoteIdentifier s = [CHR 0x22] @ s @ [CHR 0x22]))"
proof (intro conjI impI)
  show "quoteIdentifier name = quote_as_specified name"
    by (simp add: quoteIdentifier_def quote_as_specified_def escape_quotes_spec)
next
  have "length (quoteIdentifier name) < length (quoteIdentifier (quoteIdentifier name))"
    using length_escape_quotes [of "quoteIdentifier name"]
    by (simp add: quoteIdentifier_def)
  then show "quoteIdentifier (quoteIdentifier name) \<noteq> quoteIdentifier name"
    by auto
next
  assume "valid (validateIdentifier name ty)"
  then have s: "sanitized (validateIdentifier name ty) = Some (trim name)"
    and v: "VALID_IDENTIFIER (trim name)"
    using validateIdentifier_sanitized by blast+
  from v have "quoteIdentifier (trim name) = [CHR 0x22] @ trim name @ [CHR 0x22]"
    by (simp add: quoteIdentifier_def escape_quotes_no_quote VALID_IDENTIFIER_no_quote)
  with s show "\<exists>s. sanitized (validateIdentifier name ty) = Some s
      \<and> quoteIdentifier s = [CHR 0x22] @ s @ [CHR 0x22]"
    by blast
qed

theorem quoteIdentifier_wraps_and_doubles_witness:
  "valid (validateIdentifier ''users'' Table)
   \<and> sanitized (validateIdentifier ''users'' Table) = Some ''users''
   \<and> quoteIdentifier ''users'' = [CHR 0x22] @ ''users'' @ [CHR 0x22]
   \<and> quoteIdentifier ''users'' = quote_as_specified ''users''"
proof -
  have v: "valid (validateIdentifier ''users'' Table)"
    by (simp add: validateIdentifier_def trim_def is_space_simps MAX_IDENTIFIER_LENGTH_def
        is_lower_def is_upper_def is_word_char_def is_digit_def Let_def)
  have s: "sanitized (validateIdentifier ''users'' Table) = Some ''users''"
    using validateIdentifier_sanitized [OF v]
    by (simp add: trim_def is_space_simps)
  from quoteIdentifier_wraps_and_doubles [of "''users''" Table] v s
  show ?thesis by auto
qed

section \<open>Facts about collapsing white space\<close>








lemma replace_ws_runs_Nil: "replace_ws_runs b s = [] \<Longrightarrow> list_all is_space s"
  by (induction s arbitrary: b) (auto split: if_splits)




section \<open>Facts about the validator\<close>

lemma valid_reject: "\<not> valid (reject msg)" "normalized (reject msg) = None"
  by (simp_all add: reject_def)

lemma validateQuery_valid_iff:
  "valid (validateQuery stmt allowed) \<longleftrightarrow>
     stmt \<noteq> [] \<and> normalize stmt \<noteq> [] \<and> length (normalize stmt) \<le> 100000
     \<and> list_ex (startsWith (toUpperCase (normalize stmt))) allowed
     \<and> find (\<lambda>keyword. keyword_test keyword (toUpperCase (normalize stmt))) BLOCKED_KEYWORDS = None
     \<and> \<not> list_ex (\<lambda>pattern. pattern (normalize stmt)) DANGEROUS_PATTERNS
     \<and> (let semiCount = length (filter (\<lambda>c. c = CHR '';'') (normalize stmt)) in
          \<not> (semiCount > 1 \<or> (semiCount = 1 \<and> \<not> endsWith (normalize stmt) '';'')))"
  by (simp add: validateQuery_def Let_def valid_reject split: option.splits)




section \<open>Whole-word occurrences survive normalization\<close>


















section \<open>Evaluating the validator on concrete statements\<close>

lemma keyword_here_eval:
  "keyword_here keyword prev_word s =
     (if ci_starts s keyword then
        (if word_boundary prev_word s then
           word_boundary
             (if take (length keyword) s = [] then prev_word
              else is_word_char (last (take (length keyword) s)))
             (drop (length keyword) s)
         else False)
      else False)"
  by (auto simp: keyword_here_def Let_def)

lemma keyword_search_eval:
  "keyword_search keyword prev_word (c # cs) =
     (if keyword_here keyword prev_word (c # cs) then True
      else keyword_search keyword (is_word_char c) cs)"
  by simp

lemma test_anywhere_eval:
  "test_anywhere here (c # cs) = (if here (c # cs) then True else test_anywhere here cs)"
  by simp

lemma two_words_here_eval:
  "two_words_here a b s =
     (if ci_starts s a then
        (let r = drop (length a) s in
           r \<noteq> [] \<and> is_space (hd r) \<and> ci_starts (dropWhile is_space r) b)
      else False)"
  by (simp add: two_words_here_def)

lemma copy_to_here_eval:
  "copy_to_here s =
     (if ci_starts s ''COPY'' then
        (case drop 4 s of [] \<Rightarrow> False | c # cs \<Rightarrow> is_space c \<and> copy_ws1 cs)
      else False)"
  by (simp add: copy_to_here_def)

lemmas validator_eval =
  normalize_def trim_def is_space_simps toUpperCase_def toUpperChar_ascii is_word_char_ascii
  ci_starts_eval keyword_here_eval keyword_search_eval keyword_test_def word_boundary_def
  test_anywhere_eval two_words_here_eval copy_to_here_eval separator_write_here_def
  is_line_terminator_def startsWith_def endsWith_def
  BLOCKED_KEYWORDS_def ALLOWED_PREFIXES_def DANGEROUS_PATTERNS_def

lemma w1: "valid (validateQuery ''  select   *  from t  '' ALLOWED_PREFIXES)"
  unfolding validateQuery_valid_iff
  by (simp add: validator_eval del: keyword_search.simps(2) test_anywhere.simps(2))

lemma w2: "normalize ''  select   *  from t  '' = ''select * from t''"
  by (simp add: validator_eval)

lemma w3: "\<not> valid (validateQuery ''drop table t'' ALLOWED_PREFIXES)"
  unfolding validateQuery_valid_iff
  by (simp add: validator_eval del: keyword_search.simps(2) test_anywhere.simps(2))

lemma w4: "valid (validateQuery ''SELECT 1'' ALLOWED_PREFIXES)"
  unfolding validateQuery_valid_iff
  by (simp add: validator_eval del: keyword_search.simps(2) test_anywhere.simps(2))











section \<open>Facts about decimal numbers\<close>






section \<open>Facts about the limit pattern\<close>


















section \<open>Facts about substrings\<close>











section \<open>Facts about limit enforcement\<close>














section \<open>Evaluating limit enforcement on concrete statements\<close>

lemma startsWith_eval:
  "startsWith s [] = True"
  "startsWith [] (k # ks) = False"
  "startsWith (c # cs) (k # ks) = (if c = k then startsWith cs ks else False)"
  by (auto simp: startsWith_def)

lemma str_includes_eval:
  "str_includes (c # cs) sub = (if startsWith (c # cs) sub then True else str_includes cs sub)"
  by simp

lemma show_nat_eval:
  "show_nat 5 = ''5''" "show_nat 100 = ''100''" "show_nat 1000 = ''1000''"
  by (simp_all add: show_nat.simps [of 1000] show_nat.simps [of 100] show_nat.simps [of 10]
      show_nat.simps [of "Suc 0"] show_nat.simps [of 5] digit_char_def)

lemmas limit_eval =
  enforceLimit_def replace_limit_def limit_here_def strip_semicolon_def Let_def
  startsWith_eval str_includes_eval trim_def toUpperCase_def toUpperChar_ascii ci_starts_eval
  is_space_simps is_digit_def show_int_def show_nat_eval parseInt_def digit_value_def







section \<open>Facts about the batch export\<close>


lemma dbExportBatch_loop_result:
  assumes "initialized e" and "valid (validateQuery (sql input) ALLOWED_PREFIXES)"
    and "order_by_test (sql input)" and "connect_error e = None"
    and "fmt = (case format input of None \<Rightarrow> Jsonl | Some f \<Rightarrow> f)"
    and "pageSize = (case batchSize input of None \<Rightarrow> 10000 | Some b \<Rightarrow> b)"
    and "fp = output_filepath e (projectPath input) (outputPath input) fmt"
    and "w1 = (if fmt = Json then writeFileSync fp [CHR ''['', CHR 0x0A] w else w)"
    and "batch_loop fuel e (base_query (sql input)) fp fmt pageSize (maxRows input)
           initial_state w1 = Some (x, st, w2)"
  shows "dbExportBatch fuel e input w =
     Some (case x of
             Some msg \<Rightarrow> (ToolError ''Failed to export data'' (Some msg), w2)
           | None \<Rightarrow>
               (ToolSuccess
                  \<lparr>report_filepath = fp, report_format = fmt, report_totalRows = totalRows st,
                   report_batchCount = batchCount st, report_batchSize = pageSize\<rparr>,
                if fmt = Json then appendFileSync fp [CHR 0x0A, CHR '']''] w2 else w2))"
proof -
  from assms(1-4) have "dbExportBatch fuel e input w =
     (case batch_loop fuel e (base_query (sql input)) fp fmt pageSize (maxRows input)
             initial_state w1 of
        None \<Rightarrow> None
      | Some (Some msg, st, w2) \<Rightarrow> Some (ToolError ''Failed to export data'' (Some msg), w2)
      | Some (None, st, w2) \<Rightarrow>
          let w3 = (if fmt = Json then appendFileSync fp [CHR 0x0A, CHR '']''] w2 else w2)
          in Some (ToolSuccess
               \<lparr>report_filepath = fp, report_format = fmt, report_totalRows = totalRows st,
                report_batchCount = batchCount st, report_batchSize = pageSize\<rparr>, w3))"
    unfolding assms(5-8) by (simp add: dbExportBatch_def Let_def)
  also have "\<dots> = Some (case x of
             Some msg \<Rightarrow> (ToolError ''Failed to export data'' (Some msg), w2)
           | None \<Rightarrow>
               (ToolSuccess
                  \<lparr>report_filepath = fp, report_format = fmt, report_totalRows = totalRows st,
                   report_batchCount = batchCount st, report_batchSize = pageSize\<rparr>,
                if fmt = Json then appendFileSync fp [CHR 0x0A, CHR '']''] w2 else w2))"
    unfolding assms(9) by (cases x) (simp_all add: Let_def)
  finally show ?thesis .
qed

text \<open>One iteration of the loop, case by case.\<close>

declare batch_loop.simps [simp del]

lemma batch_loop_no_limit:
  "effective_limit pageSize cap (totalRows st) \<le> 0 \<Longrightarrow>
     batch_loop (Suc fuel) e bq fp fmt pageSize cap st w = Some (None, st, w)"
  by (simp add: batch_loop.simps Let_def)

lemma batch_loop_throw:
  assumes "0 < effective_limit pageSize cap (totalRows st)"
    and "executor e (issued w) (batch_query bq pageSize cap st) = Inl msg"
  shows "batch_loop (Suc fuel) e bq fp fmt pageSize cap st w
     = Some (Some msg, st, query_issued (batch_query bq pageSize cap st) w)"
  using assms by (simp add: batch_loop.simps Let_def batch_query_def query_issued_def)

lemma batch_loop_no_rows:
  assumes "0 < effective_limit pageSize cap (totalRows st)"
    and "executor e (issued w) (batch_query bq pageSize cap st) = Inr []"
  shows "batch_loop (Suc fuel) e bq fp fmt pageSize cap st w
     = Some (None, st, query_issued (batch_query bq pageSize cap st) w)"
  using assms by (simp add: batch_loop.simps Let_def batch_query_def query_issued_def)

lemma batch_loop_rows:
  assumes "0 < effective_limit pageSize cap (totalRows st)"
    and "executor e (issued w) (batch_query bq pageSize cap st) = Inr rows" and "rows \<noteq> []"
    and "write_batch e fp fmt st rows (query_issued (batch_query bq pageSize cap st) w) = (hs, w2)"
  shows "batch_loop (Suc fuel) e bq fp fmt pageSize cap st w =
     (if int (length rows) < effective_limit pageSize cap (totalRows st)
        \<or> (has_cap cap \<and> int (totalRows st + length rows) \<ge> the cap)
      then Some (None, after_batch st (length rows) hs, w2)
      else batch_loop fuel e bq fp fmt pageSize cap (after_batch st (length rows) hs) w2)"
  using assms unfolding batch_query_def query_issued_def after_batch_def
  by (simp add: batch_loop.simps Let_def)

lemma batch_loop_rows_stop:
  assumes "0 < effective_limit pageSize cap (totalRows st)"
    and "executor e (issued w) (batch_query bq pageSize cap st) = Inr rows" and "rows \<noteq> []"
    and "write_batch e fp fmt st rows (query_issued (batch_query bq pageSize cap st) w) = (hs, w2)"
    and "int (length rows) < effective_limit pageSize cap (totalRows st)
        \<or> (has_cap cap \<and> int (totalRows st + length rows) \<ge> the cap)"
  shows "batch_loop (Suc fuel) e bq fp fmt pageSize cap st w
     = Some (None, after_batch st (length rows) hs, w2)"
  using batch_loop_rows [OF assms(1-4), of fuel] assms(5) by (simp only: if_True)

lemma batch_loop_rows_continue:
  assumes "0 < effective_limit pageSize cap (totalRows st)"
    and "executor e (issued w) (batch_query bq pageSize cap st) = Inr rows" and "rows \<noteq> []"
    and "write_batch e fp fmt st rows (query_issued (batch_query bq pageSize cap st) w) = (hs, w2)"
    and "\<not> (int (length rows) < effective_limit pageSize cap (totalRows st)
        \<or> (has_cap cap \<and> int (totalRows st + length rows) \<ge> the cap))"
  shows "batch_loop (Suc fuel) e bq fp fmt pageSize cap st w
     = batch_loop fuel e bq fp fmt pageSize cap (after_batch st (length rows) hs) w2"
  using batch_loop_rows [OF assms(1-4), of fuel] assms(5) by (simp only: if_False)

lemma write_batch_world:
  assumes "write_batch e fp fmt st rows w = (hs, w2)"
  shows "issued w2 = issued w"
    and "length (written w2) =
       length (written w) + (if fmt = Csv \<and> isFirstBatch st \<and> rows \<noteq> [] then 2 else 1)"
    and "prefix (written w) (written w2)"
  using assms
  by (auto simp: write_batch_def Let_def appendFileSync_def writeFileSync_def
      split: export_format.splits if_splits)

lemma write_batch_json_file:
  assumes "write_batch e fp Json st rows w = (hs, w2)" and "files w fp = Some c"
  shows "\<exists>body. files w2 fp = Some (c @ body)"
  using assms by (auto simp: write_batch_def appendFileSync_def)

lemma batch_loop_json_file:
  "batch_loop fuel e bq fp Json pageSize cap st w = Some (x, st', w') \<Longrightarrow>
     files w fp = Some c \<Longrightarrow> \<exists>body. files w' fp = Some (c @ body)"
proof (induction fuel arbitrary: st w c)
  case 0
  then show ?case by (simp add: batch_loop.simps)
next
  case (Suc fuel)
  let ?q = "batch_query bq pageSize cap st"
  show ?case
  proof (cases "effective_limit pageSize cap (totalRows st) \<le> 0")
    case True
    from batch_loop_no_limit [OF True, where fuel = fuel and fp = fp and fmt = Json and e = e
        and bq = bq and w = w] Suc.prems(1)
    have "w' = w" by simp
    with Suc.prems(2) have "files w' fp = Some (c @ [])" by simp
    then show ?thesis by blast
  next
    case False
    then have pos: "0 < effective_limit pageSize cap (totalRows st)" by simp
    show ?thesis
    proof (cases "executor e (issued w) ?q")
      case (Inl msg)
      from batch_loop_throw [OF pos Inl, where fuel = fuel and fp = fp and fmt = Json]
        Suc.prems(1)
      have "w' = query_issued ?q w" by simp
      with Suc.prems(2) have "files w' fp = Some (c @ [])" by (simp add: query_issued_def)
      then show ?thesis by blast
    next
      case (Inr rows)
      show ?thesis
      proof (cases "rows = []")
        case True
        with Inr have "executor e (issued w) ?q = Inr []" by simp
        from batch_loop_no_rows [OF pos this, where fuel = fuel and fp = fp and fmt = Json]
          Suc.prems(1)
        have "w' = query_issued ?q w" by simp
        with Suc.prems(2) have "files w' fp = Some (c @ [])" by (simp add: query_issued_def)
        then show ?thesis by blast
      next
        case False
        obtain hs w2 where wb: "write_batch e fp Json st rows (query_issued ?q w) = (hs, w2)"
          by (cases "write_batch e fp Json st rows (query_issued ?q w)")
        have "files (query_issued ?q w) fp = Some c"
          using Suc.prems(2) by (simp add: query_issued_def)
        from write_batch_json_file [OF wb this] obtain b1 where b1: "files w2 fp = Some (c @ b1)"
          by blast
        show ?thesis
        proof (cases "int (length rows) < effective_limit pageSize cap (totalRows st)
            \<or> (has_cap cap \<and> int (totalRows st + length rows) \<ge> the cap)")
          case True
          from batch_loop_rows_stop [OF pos Inr False wb True, of fuel] Suc.prems(1)
          have "w' = w2" by simp
          with b1 show ?thesis by blast
        next
          case stay: False
          from batch_loop_rows_continue [OF pos Inr False wb stay, of fuel] Suc.prems(1)
          have "batch_loop fuel e bq fp Json pageSize cap (after_batch st (length rows) hs) w2
              = Some (x, st', w')"
            by simp
          from Suc.IH [OF this b1] obtain b2 where "files w' fp = Some ((c @ b1) @ b2)" by blast
          then show ?thesis by simp
        qed
      qed
    qed
  qed
qed


lemma effective_limit_full_page:
  assumes "0 < ps" and "\<not> has_cap cap \<or> 3 * ps < the cap" and "int n \<le> 3 * ps"
  shows "0 < effective_limit ps cap n"
    and "int n \<le> 2 * ps \<Longrightarrow> effective_limit ps cap n = ps"
  using assms by (auto simp: effective_limit_def)

lemma full_page_step:
  assumes ps: "0 < ps" and cap: "\<not> has_cap cap \<or> 3 * ps < the cap"
    and tot: "int (totalRows st) \<le> 2 * ps"
    and ex: "executor e (issued w) (batch_query bq ps cap st) = Inr rows"
    and len: "int (length rows) = ps"
  shows "\<exists>st' w2. batch_loop (Suc f) e bq fp fmt ps cap st w
        = batch_loop f e bq fp fmt ps cap st' w2
     \<and> totalRows st' = totalRows st + length rows \<and> batchCount st' = batchCount st + 1
     \<and> \<not> isFirstBatch st'
     \<and> length (issued w2) = length (issued w) + 1
     \<and> length (written w2) = length (written w) + (if fmt = Csv \<and> isFirstBatch st then 2 else 1)"
proof -
  let ?q = "batch_query bq ps cap st"
  from tot ps have t3: "int (totalRows st) \<le> 3 * ps" by simp
  from effective_limit_full_page [OF ps cap t3] tot
  have pos: "0 < effective_limit ps cap (totalRows st)"
    and eff: "effective_limit ps cap (totalRows st) = ps" by simp_all
  from len ps have ne: "rows \<noteq> []" by auto
  obtain hs w2 where wb: "write_batch e fp fmt st rows (query_issued ?q w) = (hs, w2)"
    by (cases "write_batch e fp fmt st rows (query_issued ?q w)")
  have stay: "\<not> (int (length rows) < effective_limit ps cap (totalRows st)
      \<or> (has_cap cap \<and> int (totalRows st + length rows) \<ge> the cap))"
    using eff len cap tot ps by auto
  let ?st' = "after_batch st (length rows) hs"
  have "batch_loop (Suc f) e bq fp fmt ps cap st w = batch_loop f e bq fp fmt ps cap ?st' w2"
    using pos ex ne wb stay by (rule batch_loop_rows_continue)
  moreover have "totalRows ?st' = totalRows st + length rows"
    "batchCount ?st' = batchCount st + 1" "\<not> isFirstBatch ?st'"
    by (simp_all add: after_batch_def)
  moreover have "length (issued w2) = length (issued w) + 1"
    using write_batch_world(1) [OF wb] by (simp add: query_issued_def)
  moreover have "length (written w2) =
      length (written w) + (if fmt = Csv \<and> isFirstBatch st then 2 else 1)"
    using write_batch_world(2) [OF wb] ne by (simp add: query_issued_def)
  ultimately show ?thesis by blast
qed

text \<open>
  C4: with a positive batch size and no row cap (or one above three pages), if the driver
  returns exactly \<open>batchSize\<close> rows to each of the first three queries and no rows after
  that, then with fuel for four iterations the export succeeds with \<open>batchCount = 3\<close> and
  \<open>totalRows = 3 * batchSize\<close>; four queries have been issued, and the writes are the three
  batches (with the opening and closing of the array in \<open>json\<close>, the header line in
  \<open>csv\<close>): nothing is written for the batch of no rows.
\<close>

theorem dbExportBatch_three_full_pages:
  assumes "initialized e" and "valid (validateQuery (sql input) ALLOWED_PREFIXES)"
    and "order_by_test (sql input)" and "connect_error e = None"
    and fmt: "fmt = (case format input of None \<Rightarrow> Jsonl | Some f \<Rightarrow> f)"
    and ps: "ps = (case batchSize input of None \<Rightarrow> 10000 | Some b \<Rightarrow> b)"
    and fp: "fp = output_filepath e (projectPath input) (outputPath input) fmt"
    and pos: "0 < ps"
    and cap: "\<not> has_cap (maxRows input) \<or> 3 * ps < the (maxRows input)"
    and full: "\<And>h q. length h < length (issued w) + 3 \<Longrightarrow>
        \<exists>rows. executor e h q = Inr rows \<and> int (length rows) = ps"
    and none: "\<And>h q. length (issued w) + 3 \<le> length h \<Longrightarrow> executor e h q = Inr []"
    and fuel: "4 \<le> fuel"
  shows "\<exists>w'. dbExportBatch fuel e input w =
         Some (ToolSuccess \<lparr>report_filepath = fp, report_format = fmt,
                 report_totalRows = nat (3 * ps), report_batchCount = 3,
                 report_batchSize = ps\<rparr>, w')
     \<and> length (issued w') = length (issued w) + 4
     \<and> length (written w') =
         length (written w) + 3 + (case fmt of Json \<Rightarrow> 2 | Jsonl \<Rightarrow> 0 | Csv \<Rightarrow> 1)"
proof -
  let ?fp = fp
  let ?bq = "base_query (sql input)"
  let ?cap = "maxRows input"
  let ?w1 = "if fmt = Json then writeFileSync ?fp [CHR ''['', CHR 0x0A] w else w"
  let ?loop = "\<lambda>f. batch_loop f e ?bq ?fp fmt ps ?cap"
  from fuel have "fuel = Suc (Suc (Suc (Suc (fuel - 4))))" by arith
  then obtain f where f: "fuel = Suc (Suc (Suc (Suc f)))" by blast
  have i1: "length (issued ?w1) = length (issued w)"
    and wr1: "length (written ?w1) = length (written w) + (if fmt = Json then 1 else 0)"
    by (simp_all add: writeFileSync_def)
  have s0: "int (totalRows initial_state) \<le> 2 * ps" "isFirstBatch initial_state"
    "batchCount initial_state = 0" "totalRows initial_state = 0"
    using pos by (simp_all add: initial_state_def)
  \<comment> \<open>first page\<close>
  from full [of "issued ?w1" "batch_query ?bq ps ?cap initial_state"] i1
  obtain rows0 where r0: "executor e (issued ?w1) (batch_query ?bq ps ?cap initial_state) = Inr rows0"
    "int (length rows0) = ps" by auto
  from full_page_step [OF pos cap s0(1) r0, of "Suc (Suc (Suc f))" ?fp fmt]
  obtain st1 w2 where step1: "?loop fuel initial_state ?w1 = ?loop (Suc (Suc (Suc f))) st1 w2"
    and t1: "totalRows st1 = length rows0" and b1: "batchCount st1 = 1"
    and nf1: "\<not> isFirstBatch st1"
    and i2: "length (issued w2) = length (issued w) + 1"
    and wr2: "length (written w2) = length (written ?w1) + (if fmt = Csv then 2 else 1)"
    using f i1 s0 by auto
  \<comment> \<open>second page\<close>
  from t1 r0(2) pos have tot1: "int (totalRows st1) \<le> 2 * ps" by simp
  from full [of "issued w2" "batch_query ?bq ps ?cap st1"] i2
  obtain rows1 where r1: "executor e (issued w2) (batch_query ?bq ps ?cap st1) = Inr rows1"
    "int (length rows1) = ps" by auto
  from full_page_step [OF pos cap tot1 r1, of "Suc (Suc f)" ?fp fmt]
  obtain st2 w3 where step2: "?loop (Suc (Suc (Suc f))) st1 w2 = ?loop (Suc (Suc f)) st2 w3"
    and t2: "totalRows st2 = length rows0 + length rows1" and b2: "batchCount st2 = 2"
    and nf2: "\<not> isFirstBatch st2"
    and i3: "length (issued w3) = length (issued w) + 2"
    and wr3: "length (written w3) = length (written w2) + 1"
    using t1 b1 nf1 i2 by auto
  \<comment> \<open>third page\<close>
  from t2 r0(2) r1(2) have tot2: "int (totalRows st2) \<le> 2 * ps" by simp
  from full [of "issued w3" "batch_query ?bq ps ?cap st2"] i3
  obtain rows2 where r2: "executor e (issued w3) (batch_query ?bq ps ?cap st2) = Inr rows2"
    "int (length rows2) = ps" by auto
  from full_page_step [OF pos cap tot2 r2, of "Suc f" ?fp fmt]
  obtain st3 w4 where step3: "?loop (Suc (Suc f)) st2 w3 = ?loop (Suc f) st3 w4"
    and t3: "totalRows st3 = length rows0 + length rows1 + length rows2"
    and b3: "batchCount st3 = 3"
    and i4: "length (issued w4) = length (issued w) + 3"
    and wr4: "length (written w4) = length (written w3) + 1"
    using t2 b2 nf2 i3 by auto
  \<comment> \<open>the fourth query returns no rows\<close>
  from t3 r0(2) r1(2) r2(2) have tot3: "int (totalRows st3) = 3 * ps" by simp
  then have "int (totalRows st3) \<le> 3 * ps" by simp
  from effective_limit_full_page(1) [OF pos cap this]
  have pos3: "0 < effective_limit ps ?cap (totalRows st3)" .
  let ?q3 = "batch_query ?bq ps ?cap st3"
  from none [of "issued w4" ?q3] i4 have "executor e (issued w4) ?q3 = Inr []" by simp
  from batch_loop_no_rows [OF pos3 this, of f ?fp fmt]
  have step4: "?loop (Suc f) st3 w4 = Some (None, st3, query_issued ?q3 w4)" .
  let ?w5 = "query_issued ?q3 w4"
  from step1 step2 step3 step4
  have loop: "?loop fuel initial_state ?w1 = Some (None, st3, ?w5)" by simp
  let ?w' = "if fmt = Json then appendFileSync ?fp [CHR 0x0A, CHR '']''] ?w5 else ?w5"
  let ?r = "\<lparr>report_filepath = ?fp, report_format = fmt, report_totalRows = totalRows st3,
      report_batchCount = batchCount st3, report_batchSize = ps\<rparr>"
  from dbExportBatch_loop_result [OF assms(1-4) fmt ps fp refl loop]
  have res: "dbExportBatch fuel e input w = Some (ToolSuccess ?r, ?w')" by simp
  from tot3 have "totalRows st3 = nat (3 * ps)" by simp
  with b3 have r: "?r = \<lparr>report_filepath = fp, report_format = fmt,
      report_totalRows = nat (3 * ps), report_batchCount = 3, report_batchSize = ps\<rparr>"
    by simp
  have "length (issued ?w') = length (issued w) + 4"
    using i4 by (simp add: query_issued_def appendFileSync_def)
  moreover have "length (written ?w') =
      length (written w) + 3 + (case fmt of Json \<Rightarrow> 2 | Jsonl \<Rightarrow> 0 | Csv \<Rightarrow> 1)"
    using wr1 wr2 wr3 wr4
    by (cases fmt) (simp_all add: query_issued_def appendFileSync_def)
  ultimately show ?thesis using res r by auto
qed

lemma batch_loop_trace:
  "batch_loop fuel e bq fp fmt ps cap st w = Some (x, st', w') \<Longrightarrow>
     prefix (written w) (written w') \<and> prefix (issued w) (issued w')
     \<and> (\<forall>msg. x = Some msg \<longrightarrow>
          issued w' \<noteq> [] \<and> executor e (butlast (issued w')) (last (issued w')) = Inl msg)"
proof (induction fuel arbitrary: st w)
  case 0
  then show ?case by (simp add: batch_loop.simps)
next
  case (Suc fuel)
  let ?q = "batch_query bq ps cap st"
  show ?case
  proof (cases "effective_limit ps cap (totalRows st) \<le> 0")
    case True
    from batch_loop_no_limit [OF True, where fuel = fuel and fp = fp and fmt = fmt and e = e
        and bq = bq and w = w] Suc.prems
    have "w' = w" "x = None" by simp_all
    then show ?thesis by simp
  next
    case False
    then have pos: "0 < effective_limit ps cap (totalRows st)" by simp
    show ?thesis
    proof (cases "executor e (issued w) ?q")
      case (Inl msg)
      from batch_loop_throw [OF pos Inl, where fuel = fuel and fp = fp and fmt = fmt] Suc.prems
      have "w' = query_issued ?q w" "x = Some msg" by simp_all
      with Inl show ?thesis by (simp add: query_issued_def)
    next
      case (Inr rows)
      show ?thesis
      proof (cases "rows = []")
        case True
        with Inr have "executor e (issued w) ?q = Inr []" by simp
        from batch_loop_no_rows [OF pos this, where fuel = fuel and fp = fp and fmt = fmt]
          Suc.prems
        have "w' = query_issued ?q w" "x = None" by simp_all
        then show ?thesis by (simp add: query_issued_def)
      next
        case False
        obtain hs w2 where wb: "write_batch e fp fmt st rows (query_issued ?q w) = (hs, w2)"
          by (cases "write_batch e fp fmt st rows (query_issued ?q w)")
        from write_batch_world [OF wb]
        have p2: "prefix (written w) (written w2)" "prefix (issued w) (issued w2)"
          by (simp_all add: query_issued_def)
        show ?thesis
        proof (cases "int (length rows) < effective_limit ps cap (totalRows st)
            \<or> (has_cap cap \<and> int (totalRows st + length rows) \<ge> the cap)")
          case True
          from batch_loop_rows_stop [OF pos Inr False wb True, of fuel] Suc.prems
          have "w' = w2" "x = None" by simp_all
          with p2 show ?thesis by simp
        next
          case stay: False
          from batch_loop_rows_continue [OF pos Inr False wb stay, of fuel] Suc.prems
          have "batch_loop fuel e bq fp fmt ps cap (after_batch st (length rows) hs) w2
              = Some (x, st', w')"
            by simp
          from Suc.IH [OF this] p2 show ?thesis
            by (meson prefix_order.order_trans)
        qed
      qed
    qed
  qed
qed

text \<open>
  C9: in the \<open>json\<close> format, with fuel for one iteration: if the first query returns no
  rows (or none is issued because the limit is not positive), the export succeeds with no
  batch and the whole file is an opening bracket, two line feeds and a closing bracket; if
  the first query throws, the file holds the opening bracket and line feed already, so it
  was written before the query; and whenever the export succeeds, the file is the opening,
  what the batches appended, and the closing.
\<close>

theorem dbExportBatch_json_framing:
  assumes "initialized e" and "valid (validateQuery (sql input) ALLOWED_PREFIXES)"
    and "order_by_test (sql input)" and "connect_error e = None"
    and fmt: "format input = Some Json"
    and ps: "ps = (case batchSize input of None \<Rightarrow> 10000 | Some b \<Rightarrow> b)"
    and fp: "fp = output_filepath e (projectPath input) (outputPath input) Json"
    and q0: "q0 = batch_query (base_query (sql input)) ps (maxRows input) initial_state"
    and fuel: "0 < fuel"
  shows "(effective_limit ps (maxRows input) 0 \<le> 0 \<or> executor e (issued w) q0 = Inr [] \<longrightarrow>
        (\<exists>w'. dbExportBatch fuel e input w =
             Some (ToolSuccess \<lparr>report_filepath = fp, report_format = Json, report_totalRows = 0,
                     report_batchCount = 0, report_batchSize = ps\<rparr>, w')
           \<and> files w' fp = Some [CHR ''['', CHR 0x0A, CHR 0x0A, CHR '']'']))
     \<and> (\<forall>msg. 0 < effective_limit ps (maxRows input) 0 \<and> executor e (issued w) q0 = Inl msg \<longrightarrow>
        (\<exists>w'. dbExportBatch fuel e input w = Some (ToolError ''Failed to export data'' (Some msg), w')
           \<and> files w' fp = Some [CHR ''['', CHR 0x0A] \<and> issued w' = issued w @ [q0]))
     \<and> (\<forall>r w'. dbExportBatch fuel e input w = Some (ToolSuccess r, w') \<longrightarrow>
        (\<exists>body. files w' fp = Some ([CHR ''['', CHR 0x0A] @ body @ [CHR 0x0A, CHR '']''])))"
proof -
  let ?bq = "base_query (sql input)"
  let ?cap = "maxRows input"
  let ?w1 = "writeFileSync fp [CHR ''['', CHR 0x0A] w"
  let ?loop = "batch_loop fuel e ?bq fp Json ps ?cap initial_state ?w1"
  from fuel obtain f where f: "fuel = Suc f" by (cases fuel) auto
  have fmt': "Json = (case format input of None \<Rightarrow> Jsonl | Some f \<Rightarrow> f)"
    using fmt by simp
  have w1: "?w1 = (if Json = Json then writeFileSync fp [CHR ''['', CHR 0x0A] w else w)"
    by simp
  note result = dbExportBatch_loop_result [OF assms(1-4) fmt' ps fp w1]
  have open_file: "files ?w1 fp = Some [CHR ''['', CHR 0x0A]" and i1: "issued ?w1 = issued w"
    by (simp_all add: writeFileSync_def)
  have t0: "totalRows initial_state = 0" by (simp add: initial_state_def)
  have a: "\<exists>w'. dbExportBatch fuel e input w =
             Some (ToolSuccess \<lparr>report_filepath = fp, report_format = Json, report_totalRows = 0,
                     report_batchCount = 0, report_batchSize = ps\<rparr>, w')
           \<and> files w' fp = Some [CHR ''['', CHR 0x0A, CHR 0x0A, CHR '']'']"
    if "effective_limit ps ?cap 0 \<le> 0 \<or> executor e (issued w) q0 = Inr []"
  proof -
    have "\<exists>w2. ?loop = Some (None, initial_state, w2) \<and> files w2 fp = Some [CHR ''['', CHR 0x0A]"
    proof (cases "effective_limit ps ?cap 0 \<le> 0")
      case True
      then have "effective_limit ps ?cap (totalRows initial_state) \<le> 0" by (simp add: t0)
      from batch_loop_no_limit [OF this, of f e ?bq fp Json ?w1] open_file f
      show ?thesis by simp
    next
      case False
      with that have pos: "0 < effective_limit ps ?cap (totalRows initial_state)"
        and ex: "executor e (issued ?w1) (batch_query ?bq ps ?cap initial_state) = Inr []"
        by (simp_all add: t0 i1 q0)
      from batch_loop_no_rows [OF pos ex, of f fp Json] open_file f
      show ?thesis by (simp add: query_issued_def)
    qed
    then obtain w2 where l: "?loop = Some (None, initial_state, w2)"
      and c: "files w2 fp = Some [CHR ''['', CHR 0x0A]" by blast
    from result [OF l] c show ?thesis
      by (simp add: initial_state_def appendFileSync_def)
  qed
  have b: "\<exists>w'. dbExportBatch fuel e input w = Some (ToolError ''Failed to export data'' (Some msg), w')
           \<and> files w' fp = Some [CHR ''['', CHR 0x0A] \<and> issued w' = issued w @ [q0]"
    if "0 < effective_limit ps ?cap 0 \<and> executor e (issued w) q0 = Inl msg" for msg
  proof -
    from that have pos: "0 < effective_limit ps ?cap (totalRows initial_state)"
      and ex: "executor e (issued ?w1) (batch_query ?bq ps ?cap initial_state) = Inl msg"
      by (simp_all add: t0 i1 q0)
    from batch_loop_throw [OF pos ex, of f fp Json] f
    have l: "?loop = Some (Some msg, initial_state, query_issued q0 ?w1)"
      by (simp add: q0)
    from result [OF l] open_file i1 show ?thesis
      by (simp add: query_issued_def)
  qed
  have c: "\<exists>body. files w' fp = Some ([CHR ''['', CHR 0x0A] @ body @ [CHR 0x0A, CHR '']''])"
    if d: "dbExportBatch fuel e input w = Some (ToolSuccess r, w')" for r w'
  proof (cases ?loop)
    case None
    with d assms(1-5) ps fp show ?thesis
      by (simp add: dbExportBatch_def Let_def)
  next
    case (Some a)
    obtain x st w2 where a: "a = (x, st, w2)" by (cases a)
    from Some a have l: "?loop = Some (x, st, w2)" by simp
    from result [OF l]
    have r: "dbExportBatch fuel e input w =
        Some (case x of
                Some msg \<Rightarrow> (ToolError ''Failed to export data'' (Some msg), w2)
              | None \<Rightarrow>
                  (ToolSuccess
                     \<lparr>report_filepath = fp, report_format = Json, report_totalRows = totalRows st,
                      report_batchCount = batchCount st, report_batchSize = ps\<rparr>,
                   if Json = Json then appendFileSync fp [CHR 0x0A, CHR '']''] w2 else w2))"
      by simp
    with d have x: "x = None" and w': "w' = appendFileSync fp [CHR 0x0A, CHR '']''] w2"
      by (cases x; simp)+
    from batch_loop_json_file [OF l open_file]
    obtain body where "files w2 fp = Some ([CHR ''['', CHR 0x0A] @ body)" by blast
    with w' have "files w' fp = Some ([CHR ''['', CHR 0x0A] @ body @ [CHR 0x0A, CHR '']''])"
      by (simp add: appendFileSync_def)
    then show ?thesis by blast
  qed
  from a b c show ?thesis by blast
qed

text \<open>
  C7, amended: when the loop ends because the driver threw, \<open>dbExportBatch\<close> returns the
  error \<open>Failed to export data\<close> with the driver's message as details, which tells neither
  the output path nor the progress; the world is the one at the moment of the failure, so
  every write made before it is still there, and the last query issued is the one that threw.
\<close>

theorem dbExportBatch_executor_failure:
  assumes "initialized e" and "valid (validateQuery (sql input) ALLOWED_PREFIXES)"
    and "order_by_test (sql input)" and "connect_error e = None"
    and fmt: "fmt = (case format input of None \<Rightarrow> Jsonl | Some f \<Rightarrow> f)"
    and ps: "ps = (case batchSize input of None \<Rightarrow> 10000 | Some b \<Rightarrow> b)"
    and fp: "fp = output_filepath e (projectPath input) (outputPath input) fmt"
    and w1: "w1 = (if fmt = Json then writeFileSync fp [CHR ''['', CHR 0x0A] w else w)"
    and loop: "batch_loop fuel e (base_query (sql input)) fp fmt ps (maxRows input)
           initial_state w1 = Some (Some msg, st, w2)"
  shows "dbExportBatch fuel e input w = Some (ToolError ''Failed to export data'' (Some msg), w2)
     \<and> told_filepath (ToolError ''Failed to export data'' (Some msg)) = None
     \<and> told_progress (ToolError ''Failed to export data'' (Some msg)) = None
     \<and> prefix (written w) (written w2)
     \<and> issued w2 \<noteq> [] \<and> executor e (butlast (issued w2)) (last (issued w2)) = Inl msg"
proof -
  from dbExportBatch_loop_result [OF assms(1-4) fmt ps fp w1 loop]
  have "dbExportBatch fuel e input w = Some (ToolError ''Failed to export data'' (Some msg), w2)"
    by simp
  moreover from batch_loop_trace [OF loop]
  have "prefix (written w1) (written w2)" "issued w2 \<noteq> []"
    "executor e (butlast (issued w2)) (last (issued w2)) = Inl msg"
    by simp_all
  moreover have "prefix (written w) (written w1)"
    unfolding w1 by (simp add: writeFileSync_def)
  ultimately show ?thesis
    by (auto intro: prefix_order.order_trans)
qed

section \<open>Evaluating the batch export on concrete runs\<close>

lemma test_from_boundary_eval:
  "test_from_boundary here prev_word (c # cs) =
     (if here prev_word (c # cs) then True else test_from_boundary here (is_word_char c) cs)"
  by simp

lemma order_by_here_eval:
  "order_by_here prev_word s =
     (if ci_starts s ''ORDER'' then
        word_boundary prev_word s \<and>
        (let r = drop 5 s in
           r \<noteq> [] \<and> is_space (hd r) \<and>
           (let r' = dropWhile is_space r in
              ci_starts r' ''BY'' \<and> word_boundary True (drop 2 r')))
      else False)"
  by (auto simp: order_by_here_def)

lemma limit_offset_here_eval:
  "limit_offset_here prev_word s =
     (if ci_starts s ''LIMIT'' then
        (if word_boundary prev_word s then
           (case limit_here True s of
              None \<Rightarrow> None
            | Some (ds, rest) \<Rightarrow>
                let rest' = dropWhile is_space rest
                in (case offset_here rest' of None \<Rightarrow> Some rest' | Some rest'' \<Rightarrow> Some rest''))
         else None)
      else None)"
  by (simp add: limit_offset_here_def limit_here_def)

lemmas export_eval =
  order_by_test_def test_from_boundary_eval order_by_here_eval word_boundary_def
  base_query_def limit_offset_here_eval offset_here_def strip_semicolon_def
  output_filepath_def example_env_def example_input_def empty_world_def two_rows_def
  paged_executor_def failing_executor_def

lemma example_statement_valid: "valid (validateQuery ''SELECT id FROM t ORDER BY id'' ALLOWED_PREFIXES)"
  unfolding validateQuery_valid_iff
  by (simp add: validator_eval del: keyword_search.simps(2) test_anywhere.simps(2))

lemma example_statement_ordered: "order_by_test ''SELECT id FROM t ORDER BY id''"
  by (simp add: export_eval limit_eval is_word_char_ascii del: test_from_boundary.simps(2))

lemma example_base_query: "base_query ''SELECT id FROM t ORDER BY id'' = ''SELECT id FROM t ORDER BY id''"
  by (simp add: export_eval limit_eval is_word_char_ascii)




lemma example_input_facts:
  "sql (example_input q fmt) = q" "format (example_input q fmt) = fmt"
  "batchSize (example_input q fmt) = Some 2" "maxRows (example_input q fmt) = None"
  "projectPath (example_input q fmt) = ''/project''"
  "outputPath (example_input q fmt) = Some ''/tmp/out''"
  by (simp_all add: example_input_def)

lemma example_env_facts:
  "initialized (example_env ex)" "connect_error (example_env ex) = None"
  "executor (example_env ex) = ex" "stringify (example_env ex) r = ''{}''"
  by (simp_all add: example_env_def)

lemma example_filepath:
  "output_filepath (example_env ex) ''/project'' (Some ''/tmp/out'') fmt = ''/tmp/out''"
  by (simp add: output_filepath_def startsWith_eval)

theorem dbExportBatch_three_full_pages_witness:
  "outcome (dbExportBatch 4 (example_env (paged_executor 3 two_rows))
      (example_input ''SELECT id FROM t ORDER BY id'' None) empty_world)
     = Some (ToolSuccess \<lparr>report_filepath = ''/tmp/out'', report_format = Jsonl,
               report_totalRows = 6, report_batchCount = 3, report_batchSize = 2\<rparr>)
   \<and> length (queries_after (dbExportBatch 4 (example_env (paged_executor 3 two_rows))
      (example_input ''SELECT id FROM t ORDER BY id'' None) empty_world)) = 4
   \<and> length (writes_after (dbExportBatch 4 (example_env (paged_executor 3 two_rows))
      (example_input ''SELECT id FROM t ORDER BY id'' None) empty_world)) = 3"
proof -
  let ?e = "example_env (paged_executor 3 two_rows)"
  let ?i = "example_input ''SELECT id FROM t ORDER BY id'' None"
  have i0: "issued empty_world = []" "written empty_world = []"
    by (simp_all add: empty_world_def)
  have "\<exists>w'. dbExportBatch 4 ?e ?i empty_world =
         Some (ToolSuccess \<lparr>report_filepath = ''/tmp/out'', report_format = Jsonl,
                 report_totalRows = nat (3 * 2), report_batchCount = 3,
                 report_batchSize = 2\<rparr>, w')
     \<and> length (issued w') = length (issued empty_world) + 4
     \<and> length (written w') =
         length (written empty_world) + 3 + (case Jsonl of Json \<Rightarrow> 2 | Jsonl \<Rightarrow> 0 | Csv \<Rightarrow> 1)"
  proof (rule dbExportBatch_three_full_pages)
    show "initialized ?e" by (simp add: example_env_facts)
    show "valid (validateQuery (sql ?i) ALLOWED_PREFIXES)"
      by (simp add: example_input_facts example_statement_valid)
    show "order_by_test (sql ?i)"
      by (simp add: example_input_facts example_statement_ordered)
    show "connect_error ?e = None" by (simp add: example_env_facts)
    show "Jsonl = (case format ?i of None \<Rightarrow> Jsonl | Some f \<Rightarrow> f)"
      by (simp add: example_input_facts)
    show "2 = (case batchSize ?i of None \<Rightarrow> 10000 | Some b \<Rightarrow> b)"
      by (simp add: example_input_facts)
    show "''/tmp/out'' = output_filepath ?e (projectPath ?i) (outputPath ?i) Jsonl"
      by (simp add: example_input_facts example_filepath)
    show "(0::int) < 2" by simp
    show "\<not> has_cap (maxRows ?i) \<or> 3 * 2 < the (maxRows ?i)"
      by (simp add: example_input_facts has_cap_def)
    show "\<exists>rows. executor ?e h q = Inr rows \<and> int (length rows) = 2"
      if "length h < length (issued empty_world) + 3" for h q
      using that by (simp add: example_env_facts paged_executor_def two_rows_def i0)
    show "executor ?e h q = Inr []" if "length (issued empty_world) + 3 \<le> length h" for h q
      using that by (simp add: example_env_facts paged_executor_def i0)
    show "(4::nat) \<le> 4" by simp
  qed
  then show ?thesis
    by (auto simp: outcome_def queries_after_def writes_after_def i0)
qed

theorem dbExportBatch_json_framing_witness:
  "outcome (dbExportBatch 1 (example_env (paged_executor 0 two_rows))
      (example_input ''SELECT id FROM t ORDER BY id'' (Some Json)) empty_world)
     = Some (ToolSuccess \<lparr>report_filepath = ''/tmp/out'', report_format = Json,
               report_totalRows = 0, report_batchCount = 0, report_batchSize = 2\<rparr>)
   \<and> file_after (dbExportBatch 1 (example_env (paged_executor 0 two_rows))
      (example_input ''SELECT id FROM t ORDER BY id'' (Some Json)) empty_world) ''/tmp/out''
     = Some [CHR ''['', CHR 0x0A, CHR 0x0A, CHR '']'']
   \<and> outcome (dbExportBatch 1 (example_env (failing_executor 0 two_rows ''connection lost''))
      (example_input ''SELECT id FROM t ORDER BY id'' (Some Json)) empty_world)
     = Some (ToolError ''Failed to export data'' (Some ''connection lost''))
   \<and> file_after (dbExportBatch 1 (example_env (failing_executor 0 two_rows ''connection lost''))
      (example_input ''SELECT id FROM t ORDER BY id'' (Some Json)) empty_world) ''/tmp/out''
     = Some [CHR ''['', CHR 0x0A]"
proof -
  let ?i = "example_input ''SELECT id FROM t ORDER BY id'' (Some Json)"
  let ?q0 = "batch_query (base_query (sql ?i)) 2 (maxRows ?i) initial_state"
  have v: "valid (validateQuery (sql ?i) ALLOWED_PREFIXES)"
    by (simp add: example_input_facts example_statement_valid)
  have o: "order_by_test (sql ?i)"
    by (simp add: example_input_facts example_statement_ordered)
  have f: "format ?i = Some Json" by (simp add: example_input_facts)
  have ps: "2 = (case batchSize ?i of None \<Rightarrow> 10000 | Some b \<Rightarrow> b)"
    by (simp add: example_input_facts)
  have fp: "''/tmp/out'' = output_filepath (example_env ex) (projectPath ?i) (outputPath ?i) Json"
    for ex by (simp add: example_input_facts example_filepath)
  have fuel: "(0::nat) < 1" by simp
  have lim: "0 < effective_limit 2 (maxRows ?i) 0"
    by (simp add: effective_limit_def has_cap_def example_input_facts)
  let ?e1 = "example_env (paged_executor 0 two_rows)"
  have ex1: "executor ?e1 (issued empty_world) ?q0 = Inr []"
    by (simp add: example_env_facts paged_executor_def)
  note t1 = dbExportBatch_json_framing [where e = ?e1 and input = ?i and w = empty_world,
      OF example_env_facts(1) v o example_env_facts(2) f ps fp refl fuel]
  from t1 ex1 obtain w' where a: "dbExportBatch 1 ?e1 ?i empty_world =
      Some (ToolSuccess \<lparr>report_filepath = ''/tmp/out'', report_format = Json,
              report_totalRows = 0, report_batchCount = 0, report_batchSize = 2\<rparr>, w')"
    "files w' ''/tmp/out'' = Some [CHR ''['', CHR 0x0A, CHR 0x0A, CHR '']'']"
    by blast
  let ?e2 = "example_env (failing_executor 0 two_rows ''connection lost'')"
  have ex2: "executor ?e2 (issued empty_world) ?q0 = Inl ''connection lost''"
    by (simp add: example_env_facts failing_executor_def)
  note t2 = dbExportBatch_json_framing [where e = ?e2 and input = ?i and w = empty_world,
      OF example_env_facts(1) v o example_env_facts(2) f ps fp refl fuel]
  from t2 lim ex2 obtain w'' where b: "dbExportBatch 1 ?e2 ?i empty_world =
      Some (ToolError ''Failed to export data'' (Some ''connection lost''), w'')"
    "files w'' ''/tmp/out'' = Some [CHR ''['', CHR 0x0A]"
    by blast
  from a b show ?thesis
    by (simp add: outcome_def file_after_def)
qed

lemma show_small_eval:
  "show_nat 0 = ''0''" "show_nat 2 = ''2''" "show_nat (Suc (Suc 0)) = ''2''" "show_int 2 = ''2''"
  by (simp_all add: show_int_def show_nat.simps [of 0] show_nat.simps [of 2]
      show_nat.simps [of "Suc (Suc 0)"] digit_char_def)

lemma example_failure_loop:
  "batch_loop (Suc (Suc 0)) (example_env (failing_executor (Suc 0) two_rows ''connection lost''))
     ''SELECT id FROM t ORDER BY id'' ''/tmp/out'' Jsonl 2 None initial_state empty_world
   = Some (Some ''connection lost'',
           \<lparr>totalRows = 2, batchCount = 1, offset = 2, isFirstBatch = False, headers = []\<rparr>,
           \<lparr>files = [''/tmp/out'' \<mapsto> ''{}'' @ [CHR 0x0A] @ ''{}''],
            written = [(''/tmp/out'', ''{}'' @ [CHR 0x0A] @ ''{}'')],
            issued = [''SELECT id FROM t ORDER BY id LIMIT 2 OFFSET 0'',
                      ''SELECT id FROM t ORDER BY id LIMIT 2 OFFSET 2'']\<rparr>)"
  by (simp add: batch_loop.simps Let_def effective_limit_def has_cap_def
      initial_state_def empty_world_def example_env_def failing_executor_def two_rows_def
      write_batch_def appendFileSync_def show_small_eval)

text \<open>
  C7, as stated: after a failure of the driver in the middle of the loop the result still
  tells the output path and the progress made. Here the first query returns two rows, which
  are written, and the second throws: the file holds the first batch, and the result is the
  error with the driver's message, without the path and without the counts.
\<close>

theorem dbExportBatch_failure_tells_no_path:
  "outcome (dbExportBatch (Suc (Suc 0)) (example_env (failing_executor (Suc 0) two_rows ''connection lost''))
      (example_input ''SELECT id FROM t ORDER BY id'' None) empty_world)
     = Some (ToolError ''Failed to export data'' (Some ''connection lost''))
   \<and> told_filepath (ToolError ''Failed to export data'' (Some ''connection lost'')) = None
   \<and> told_progress (ToolError ''Failed to export data'' (Some ''connection lost'')) = None
   \<and> file_after (dbExportBatch (Suc (Suc 0)) (example_env (failing_executor (Suc 0) two_rows ''connection lost''))
      (example_input ''SELECT id FROM t ORDER BY id'' None) empty_world) ''/tmp/out''
     = Some (''{}'' @ [CHR 0x0A] @ ''{}'')"
proof -
  let ?e = "example_env (failing_executor (Suc 0) two_rows ''connection lost'')"
  let ?i = "example_input ''SELECT id FROM t ORDER BY id'' None"
  have "dbExportBatch (Suc (Suc 0)) ?e ?i empty_world =
      (case batch_loop (Suc (Suc 0)) ?e ''SELECT id FROM t ORDER BY id'' ''/tmp/out'' Jsonl 2 None
              initial_state empty_world of
         None \<Rightarrow> None
       | Some (Some msg, st, w2) \<Rightarrow> Some (ToolError ''Failed to export data'' (Some msg), w2)
       | Some (None, st, w2) \<Rightarrow>
           Some (ToolSuccess
                  \<lparr>report_filepath = ''/tmp/out'', report_format = Jsonl,
                   report_totalRows = totalRows st, report_batchCount = batchCount st,
                   report_batchSize = 2\<rparr>, w2))"
    by (simp add: dbExportBatch_def Let_def example_input_facts example_env_facts
        example_statement_valid example_statement_ordered example_base_query example_filepath
        cong: option.case_cong)
  then show ?thesis
    by (simp add: example_failure_loop outcome_def file_after_def)
qed

theorem dbExportBatch_executor_failure_witness:
  "dbExportBatch (Suc (Suc 0)) (example_env (failing_executor (Suc 0) two_rows ''connection lost''))
      (example_input ''SELECT id FROM t ORDER BY id'' None) empty_world
     = Some (ToolError ''Failed to export data'' (Some ''connection lost''),
             \<lparr>files = [''/tmp/out'' \<mapsto> ''{}'' @ [CHR 0x0A] @ ''{}''],
              written = [(''/tmp/out'', ''{}'' @ [CHR 0x0A] @ ''{}'')],
              issued = [''SELECT id FROM t ORDER BY id LIMIT 2 OFFSET 0'',
                        ''SELECT id FROM t ORDER BY id LIMIT 2 OFFSET 2'']\<rparr>)"
proof -
  let ?e = "example_env (failing_executor (Suc 0) two_rows ''connection lost'')"
  let ?i = "example_input ''SELECT id FROM t ORDER BY id'' None"
  have v: "valid (validateQuery (sql ?i) ALLOWED_PREFIXES)"
    by (simp add: example_input_facts example_statement_valid)
  have o: "order_by_test (sql ?i)"
    by (simp add: example_input_facts example_statement_ordered)
  have f: "Jsonl = (case format ?i of None \<Rightarrow> Jsonl | Some f \<Rightarrow> f)"
    by (simp add: example_input_facts)
  have ps: "2 = (case batchSize ?i of None \<Rightarrow> 10000 | Some b \<Rightarrow> b)"
    by (simp add: example_input_facts)
  have fp: "''/tmp/out'' = output_filepath ?e (projectPath ?i) (outputPath ?i) Jsonl"
    by (simp add: example_input_facts example_filepath)
  have w1: "empty_world = (if Jsonl = Json then writeFileSync ''/tmp/out'' [CHR ''['', CHR 0x0A]
      empty_world else empty_world)"
    by simp
  have loop: "batch_loop (Suc (Suc 0)) ?e (base_query (sql ?i)) ''/tmp/out'' Jsonl 2 (maxRows ?i)
      initial_state empty_world
    = Some (Some ''connection lost'',
           \<lparr>totalRows = 2, batchCount = 1, offset = 2, isFirstBatch = False, headers = []\<rparr>,
           \<lparr>files = [''/tmp/out'' \<mapsto> ''{}'' @ [CHR 0x0A] @ ''{}''],
            written = [(''/tmp/out'', ''{}'' @ [CHR 0x0A] @ ''{}'')],
            issued = [''SELECT id FROM t ORDER BY id LIMIT 2 OFFSET 0'',
                      ''SELECT id FROM t ORDER BY id LIMIT 2 OFFSET 2'']\<rparr>)"
    by (simp only: example_input_facts example_base_query example_failure_loop)
  from dbExportBatch_executor_failure
    [OF example_env_facts(1) v o example_env_facts(2) f ps fp w1 loop]
  show ?thesis by blast
qed

end
